theory Spec2Isabelle
  imports Main "HOL-Library.AList" "HOL-Library.Char_ord" "HOL-Library.List_Lexorder"
    "HOL-Library.Multiset" "HOL-Library.Word"
begin

unbundle bit_operations_syntax

section \<open>The metrics provider (pkg/metrics/metrics.go)\<close>

text \<open>
  Failures of the Go code are values: a returned \<open>error\<close> carries its message, a panic
  (nil dereference, index out of range, \<open>MustRegister\<close> on a collision) is kept apart.
\<close>

datatype failure = Panic string | Error string

text \<open>\<open>time.Duration\<close> is an \<open>int64\<close> count of nanoseconds.\<close>

type_synonym duration = "64 word"

definition namespace :: string where "namespace = ''kms''"
definition crypto :: string where "crypto = ''crypto''"
definition cryptoSignTimeMetric :: string where "cryptoSignTimeMetric = ''sign_seconds''"
definition db :: string where "db = ''db''"
definition dbPutTimeMetric :: string where "dbPutTimeMetric = ''put_seconds''"
definition dbGetTimeMetric :: string where "dbGetTimeMetric = ''get_seconds''"
definition dbGetTagsTimeMetric :: string where "dbGetTagsTimeMetric = ''get_tags_seconds''"
definition dbGetBulkTimeMetric :: string where "dbGetBulkTimeMetric = ''get_bulk_seconds''"
definition dbQueryTimeMetric :: string where "dbQueryTimeMetric = ''query_seconds''"
definition dbDeleteTimeMetric :: string where "dbDeleteTimeMetric = ''delete_seconds''"
definition dbBatchTimeMetric :: string where "dbBatchTimeMetric = ''batch_seconds''"
definition keyStore :: string where "keyStore = ''key_store''"
definition keyStoreResolveTimeMetric :: string where
  "keyStoreResolveTimeMetric = ''resolve_seconds''"
definition keyStoreGetKeyTimeMetric :: string where
  "keyStoreGetKeyTimeMetric = ''get_key_seconds''"

text \<open>
  A \<open>prometheus.Histogram\<close> is a reference to a mutable accumulator. The model keeps the
  address it was allocated at (\<open>h_ref\<close>) together with the \<open>HistogramOpts\<close> it was
  built from; what it has observed lives in the process state below.
\<close>

record histogram =
  h_ref :: nat
  h_namespace :: string
  h_subsystem :: string
  h_name :: string
  h_help :: string
  h_constLabels :: "(string \<times> string) list"

text \<open>
  \<open>newHistogram\<close>; the first argument is the address the new object is allocated at.
  A \<open>nil\<close> label map has no entries.
\<close>

definition newHistogram ::
  "nat \<Rightarrow> string \<Rightarrow> string \<Rightarrow> string \<Rightarrow> (string \<times> string) list \<Rightarrow> histogram" where
  "newHistogram r subsystem name help labels =
     \<lparr>h_ref = r, h_namespace = namespace, h_subsystem = subsystem, h_name = name,
      h_help = help, h_constLabels = labels\<rparr>"

text \<open>
  A Go \<open>map[string]prometheus.Histogram\<close> is an association list with unique keys:
  \<open>counters[dbType] = h\<close> is \<open>AList.update\<close>, \<open>c, ok := counters[dbType]\<close> is \<open>map_of\<close>.
\<close>

type_synonym histograms = "(string \<times> histogram) list"

record Metrics =
  cryptoSignTime :: histogram
  dbPutTimes :: histograms
  dbGetTimes :: histograms
  dbGetTagsTimes :: histograms
  dbGetBulkTimes :: histograms
  dbQueryTimes :: histograms
  dbDeleteTimes :: histograms
  dbBatchTimes :: histograms
  keyStoreResolveTime :: histogram
  keyStoreGetKeyTime :: histogram

definition newCryptoSignTime :: "nat \<Rightarrow> histogram" where
  "newCryptoSignTime r =
     newHistogram r crypto cryptoSignTimeMetric
       ''The time (in seconds) that it takes to sign message.'' []"

text \<open>
  The seven \<open>newDB...Time\<close> constructors run the same loop,
  \<open>for _, dbType := range dbTypes { counters[dbType] = newHistogram(db, name, help,
  Labels{"type": dbType}) }\<close>, over a fresh map. \<open>dbTimeLoop\<close> is that loop; the
  histograms are allocated at consecutive addresses.
\<close>

fun dbTimeLoop ::
  "string \<Rightarrow> string \<Rightarrow> string list \<Rightarrow> nat \<Rightarrow> histograms \<Rightarrow> histograms" where
  "dbTimeLoop name help [] r counters = counters"
| "dbTimeLoop name help (dbType # rest) r counters =
     dbTimeLoop name help rest (Suc r)
       (AList.update dbType (newHistogram r db name help [(''type'', dbType)]) counters)"

definition newDBPutTime :: "string list \<Rightarrow> nat \<Rightarrow> histograms" where
  "newDBPutTime dbTypes r =
     dbTimeLoop dbPutTimeMetric ''The time (in seconds) it takes the DB to store data.''
       dbTypes r []"

definition newDBGetTime :: "string list \<Rightarrow> nat \<Rightarrow> histograms" where
  "newDBGetTime dbTypes r =
     dbTimeLoop dbGetTimeMetric ''The time (in seconds) it takes the DB to get data.''
       dbTypes r []"

definition newDBGetTagsTime :: "string list \<Rightarrow> nat \<Rightarrow> histograms" where
  "newDBGetTagsTime dbTypes r =
     dbTimeLoop dbGetTagsTimeMetric ''The time (in seconds) it takes the DB to get tags.''
       dbTypes r []"

definition newDBGetBulkTime :: "string list \<Rightarrow> nat \<Rightarrow> histograms" where
  "newDBGetBulkTime dbTypes r =
     dbTimeLoop dbGetBulkTimeMetric ''The time (in seconds) it takes the DB to get bulk.''
       dbTypes r []"

definition newDBQueryTime :: "string list \<Rightarrow> nat \<Rightarrow> histograms" where
  "newDBQueryTime dbTypes r =
     dbTimeLoop dbQueryTimeMetric ''The time (in seconds) it takes the DB to query.''
       dbTypes r []"

definition newDBDeleteTime :: "string list \<Rightarrow> nat \<Rightarrow> histograms" where
  "newDBDeleteTime dbTypes r =
     dbTimeLoop dbDeleteTimeMetric ''The time (in seconds) it takes the DB to delete.''
       dbTypes r []"

definition newDBBatchTime :: "string list \<Rightarrow> nat \<Rightarrow> histograms" where
  "newDBBatchTime dbTypes r =
     dbTimeLoop dbBatchTimeMetric ''The time (in seconds) it takes the DB to batch.''
       dbTypes r []"

definition newKeyStoreResolveTime :: "nat \<Rightarrow> histogram" where
  "newKeyStoreResolveTime r =
     newHistogram r keyStore keyStoreResolveTimeMetric
       ''The time (in seconds) that it takes to resolve keystore.'' []"

definition newKeyStoreGetKeyTime :: "nat \<Rightarrow> histogram" where
  "newKeyStoreGetKeyTime r =
     newHistogram r keyStore keyStoreGetKeyTimeMetric
       ''The time (in seconds) that it takes to get key from keystore.'' []"

text \<open>The local \<open>dbTypes\<close> of \<open>newMetrics\<close>.\<close>

definition dbTypes :: "string list" where
  "dbTypes = [''CouchDB'', ''MongoDB'', ''EDV'']"

text \<open>
  The struct literal of \<open>newMetrics\<close>: the fields are built in the order written, from
  address \<open>r\<close> on. \<open>metricsSize\<close> is the number of histograms it allocates.
\<close>

definition metricsSize :: nat where
  "metricsSize = 3 + 7 * length dbTypes"

definition buildMetrics :: "nat \<Rightarrow> Metrics" where
  "buildMetrics r =
     (let k = length dbTypes in
      \<lparr>cryptoSignTime = newCryptoSignTime r,
       dbPutTimes = newDBPutTime dbTypes (r + 1),
       dbGetTimes = newDBGetTime dbTypes (r + 1 + k),
       dbGetTagsTimes = newDBGetTagsTime dbTypes (r + 1 + 2 * k),
       dbGetBulkTimes = newDBGetBulkTime dbTypes (r + 1 + 3 * k),
       dbQueryTimes = newDBQueryTime dbTypes (r + 1 + 4 * k),
       dbDeleteTimes = newDBDeleteTime dbTypes (r + 1 + 5 * k),
       dbBatchTimes = newDBBatchTime dbTypes (r + 1 + 6 * k),
       keyStoreResolveTime = newKeyStoreResolveTime (r + 1 + 7 * k),
       keyStoreGetKeyTime = newKeyStoreGetKeyTime (r + 2 + 7 * k)\<rparr>)"

text \<open>
  The collectors in the order \<open>newMetrics\<close> hands them to \<open>prometheus.MustRegister\<close>:
  the three plain histograms, then the maps for put, get, get-tags, get-bulk, batch, delete
  and query. Go leaves the iteration order inside one map unspecified; the model takes the
  order of the association list.
\<close>

definition collectors :: "Metrics \<Rightarrow> histogram list" where
  "collectors m =
     [cryptoSignTime m, keyStoreResolveTime m, keyStoreGetKeyTime m]
     @ map snd (dbPutTimes m) @ map snd (dbGetTimes m) @ map snd (dbGetTagsTimes m)
     @ map snd (dbGetBulkTimes m) @ map snd (dbBatchTimes m) @ map snd (dbDeleteTimes m)
     @ map snd (dbQueryTimes m)"

text \<open>
  What the default Prometheus registry keeps of a collector is its descriptor: the fully
  qualified name, the help string, the constant labels and the names of the variable
  labels. \<open>BuildFQName\<close> joins the parts of the name that are not empty with \<open>_\<close>; a
  histogram built by \<open>prometheus.NewHistogram\<close> has the descriptor of its options and no
  variable labels.
\<close>

definition BuildFQName :: "string \<Rightarrow> string \<Rightarrow> string \<Rightarrow> string" where
  "BuildFQName ns subsystem metric =
     (if metric = [] then []
      else if ns \<noteq> [] \<and> subsystem \<noteq> [] then ns @ ''_'' @ subsystem @ ''_'' @ metric
      else if ns \<noteq> [] then ns @ ''_'' @ metric
      else if subsystem \<noteq> [] then subsystem @ ''_'' @ metric
      else metric)"

record desc =
  d_fqName :: string
  d_help :: string
  d_constLabels :: "(string \<times> string) list"
  d_variableLabels :: "string list"

definition histogramDesc :: "histogram \<Rightarrow> desc" where
  "histogramDesc h =
     \<lparr>d_fqName = BuildFQName (h_namespace h) (h_subsystem h) (h_name h),
      d_help = h_help h,
      d_constLabels = h_constLabels h,
      d_variableLabels = []\<rparr>"

text \<open>
  The two values the registry compares, as the data they are hashes of. The identity
  \<open>descID\<close> is the fully qualified name followed by the values of the constant labels in
  the order of their sorted names. The dimension \<open>dimHash\<close> is the help string followed
  by the sorted label names, those of variable labels marked with \<open>$\<close>.
\<close>

definition descID :: "desc \<Rightarrow> string list" where
  "descID d = d_fqName d # map snd (sort_key fst (d_constLabels d))"

definition dimHash :: "desc \<Rightarrow> string list" where
  "dimHash d =
     d_help d # sort (map fst (d_constLabels d) @ map (\<lambda>l. CHR ''$'' # l) (d_variableLabels d))"

text \<open>
  \<open>Register\<close> refuses a descriptor when one of the same fully qualified name is
  registered with another help string or other label names, and otherwise when its
  identity is registered already. The result is the message of the error, if any.
\<close>

definition refused :: "desc \<Rightarrow> desc list \<Rightarrow> string option" where
  "refused d reg =
     (if \<exists>x \<in> set reg. d_fqName x = d_fqName d \<and> dimHash x \<noteq> dimHash d
      then Some (''a previously registered descriptor with the same fully-qualified name''
                 @ '' has different label names or a different help string'')
      else if descID d \<in> set (map descID reg)
      then Some ''duplicate metrics collector registration attempted''
      else None)"

text \<open>
  \<open>MustRegister\<close> registers its collectors in turn and panics at the first one refused,
  keeping what it had registered before. The result pairs the panic, if any, with the
  registry.
\<close>

fun MustRegister :: "histogram list \<Rightarrow> desc list \<Rightarrow> failure option \<times> desc list" where
  "MustRegister [] reg = (None, reg)"
| "MustRegister (c # cs) reg =
     (case refused (histogramDesc c) reg of
        Some msg \<Rightarrow> (Some (Panic msg), reg)
      | None \<Rightarrow> MustRegister cs (reg @ [histogramDesc c]))"

text \<open>
  The process state the package touches: the allocator, the package variables
  \<open>createOnce\<close> (the done flag of the \<open>sync.Once\<close>) and \<open>instance\<close> (here \<open>instance_var\<close>;
  \<open>nil\<close> is \<open>None\<close>),
  the default registry, and the log of every \<open>Observe\<close> call (address of the histogram
  and the duration whose \<open>Seconds()\<close> it was given).
\<close>

record process =
  nextRef :: nat
  createOnce :: bool
  instance_var :: "Metrics option"
  registry :: "desc list"
  observed :: "(nat \<times> duration) list"

text \<open>
  \<open>newMetrics\<close>: build the struct, register its collectors. On a panic the struct is
  lost; the allocations and the registrations made so far remain.
\<close>

definition newMetrics :: "process \<Rightarrow> (failure + Metrics) \<times> process" where
  "newMetrics p =
     (let m = buildMetrics (nextRef p);
          p1 = p\<lparr>nextRef := nextRef p + metricsSize\<rparr>
      in case MustRegister (collectors m) (registry p1) of
           (Some e, reg) \<Rightarrow> (Inl e, p1\<lparr>registry := reg\<rparr>)
         | (None, reg) \<Rightarrow> (Inr m, p1\<lparr>registry := reg\<rparr>))"

text \<open>
  \<open>Get\<close>: \<open>createOnce.Do\<close> runs its function only while the flag is unset and sets the
  flag when the function returns or panics; a panic leaves \<open>instance\<close> as it was and
  reaches the caller of \<open>Get\<close>. Calls of \<open>Do\<close> exclude each other, so every execution of
  \<open>Get\<close> calls, concurrent ones included, is one of these steps after another.
\<close>

definition Get :: "process \<Rightarrow> (failure + Metrics option) \<times> process" where
  "Get p =
     (if createOnce p then (Inr (instance_var p), p)
      else case newMetrics p of
             (Inl e, p1) \<Rightarrow> (Inl e, p1\<lparr>createOnce := True\<rparr>)
           | (Inr m, p1) \<Rightarrow> (Inr (Some m), p1\<lparr>createOnce := True, instance_var := Some m\<rparr>))"

text \<open>\<open>k\<close> calls of \<open>Get\<close>, one after another: what each returned, and the final state.\<close>

fun GetTimes :: "nat \<Rightarrow> process \<Rightarrow> (failure + Metrics option) list \<times> process" where
  "GetTimes 0 p = ([], p)"
| "GetTimes (Suc k) p =
     (case Get p of (r, p1) \<Rightarrow> (case GetTimes k p1 of (rs, p2) \<Rightarrow> (r # rs, p2)))"

text \<open>\<open>c.Observe(value.Seconds())\<close>.\<close>

definition Observe :: "histogram \<Rightarrow> duration \<Rightarrow> process \<Rightarrow> process" where
  "Observe c v p = p\<lparr>observed := observed p @ [(h_ref c, v)]\<rparr>"

text \<open>
  The body shared by the seven recorders, \<open>if c, ok := m.field[dbType]; ok {
  c.Observe(value.Seconds()) }\<close>; a \<open>nil\<close> receiver panics on the field access.
\<close>

definition recordDB ::
  "(Metrics \<Rightarrow> histograms) \<Rightarrow> Metrics option \<Rightarrow> string \<Rightarrow> duration \<Rightarrow> process
   \<Rightarrow> failure + process" where
  "recordDB field m dbType v p =
     (case m of
        None \<Rightarrow> Inl (Panic ''invalid memory address or nil pointer dereference'')
      | Some mm \<Rightarrow>
          (case map_of (field mm) dbType of
             Some c \<Rightarrow> Inr (Observe c v p)
           | None \<Rightarrow> Inr p))"

definition DBPutTime :: "Metrics option \<Rightarrow> string \<Rightarrow> duration \<Rightarrow> process \<Rightarrow> failure + process" where
  "DBPutTime = recordDB dbPutTimes"

definition DBGetTime :: "Metrics option \<Rightarrow> string \<Rightarrow> duration \<Rightarrow> process \<Rightarrow> failure + process" where
  "DBGetTime = recordDB dbGetTimes"

definition DBGetTagsTime :: "Metrics option \<Rightarrow> string \<Rightarrow> duration \<Rightarrow> process \<Rightarrow> failure + process" where
  "DBGetTagsTime = recordDB dbGetTagsTimes"

definition DBGetBulkTime :: "Metrics option \<Rightarrow> string \<Rightarrow> duration \<Rightarrow> process \<Rightarrow> failure + process" where
  "DBGetBulkTime = recordDB dbGetBulkTimes"

definition DBQueryTime :: "Metrics option \<Rightarrow> string \<Rightarrow> duration \<Rightarrow> process \<Rightarrow> failure + process" where
  "DBQueryTime = recordDB dbQueryTimes"

definition DBDeleteTime :: "Metrics option \<Rightarrow> string \<Rightarrow> duration \<Rightarrow> process \<Rightarrow> failure + process" where
  "DBDeleteTime = recordDB dbDeleteTimes"

definition DBBatchTime :: "Metrics option \<Rightarrow> string \<Rightarrow> duration \<Rightarrow> process \<Rightarrow> failure + process" where
  "DBBatchTime = recordDB dbBatchTimes"

text \<open>The state of a process that has not called \<open>Get\<close> yet and has registered nothing.\<close>

definition processStart :: process where
  "processStart = \<lparr>nextRef = 0, createOnce = False, instance_var = None, registry = [],
                    observed = []\<rparr>"

section \<open>Capabilities, delegation and the invocation header (BDD steps of the KMS)\<close>

subsection \<open>Documents\<close>

text \<open>
  The values a decoded JSON document holds behind Go's \<open>interface{}\<close>. Numbers are left
  out: no field of a capability or of its proofs is one.
\<close>

datatype jvalue =
  JNull
  | JBool bool
  | JString string
  | JArray "jvalue list"
  | JObject "(string \<times> jvalue) list"

text \<open>
  A proof (\<open>verifiable.Proof\<close>) is a \<open>map[string]interface{}\<close>: an association list,
  read with \<open>map_of\<close>.
\<close>

type_synonym proof_map = "(string \<times> jvalue) list"

record InvocationTarget =
  target_ID :: string
  target_Type :: string

text \<open>
  Modelled from the spec: the struct \<open>zcapld.Capability\<close> is declared in the edge-core
  library, not in the sources verified here. The fields are those of the capability
  document of the spec (\<open>id\<close>, \<open>invoker\<close>, \<open>parent\<close>, \<open>invocationTarget{id,type}\<close>, \<open>allowedActions[]\<close>,
  \<open>proof[]\<close>), under the names the steps use (\<open>c.ID\<close>, \<open>c.Parent\<close>,
  \<open>c.InvocationTarget.ID\<close>, \<open>c.Proof[0]\<close>). As in the steps, the capability chain is not
  a field of its own: it is the \<open>capabilityChain\<close> entry of the first proof.
\<close>

record Capability =
  ID :: string
  Invoker :: string
  Parent :: string
  AllowedAction :: "string list"
  InvocationTarget :: InvocationTarget
  Proof :: "proof_map list"

text \<open>
  \<open>zcapld.Signer\<close> as the steps fill it: the key the Ed25519 suite signs with, the suite
  type and the verification method. (The document loader passed as a processor option is
  part of the environment below.)
\<close>

record Signer =
  SignatureSuite :: string
  SuiteType :: string
  VerificationMethod :: string

datatype CapabilityOption =
  WithInvoker string
  | WithParent string
  | WithInvocationTarget string string
  | WithAllowedActions "string list"
  | WithCapabilityChain "jvalue list"

record CapabilityOptions =
  opt_Invoker :: string
  opt_Parent :: string
  opt_AllowedAction :: "string list"
  opt_InvocationTarget :: InvocationTarget
  opt_CapabilityChain :: "jvalue list"

text \<open>
  An HTTP request and an HTTP response, as far as the steps touch them; \<open>Header\<close> is
  \<open>map[string][]string\<close>.
\<close>

record request =
  Method :: string
  URL :: string
  Header :: "(string \<times> string list) list"

record response =
  resp_status :: string
  resp_body :: string

text \<open>
  The fields of the test user (declared in another step file) that the functions below
  read. \<open>nil\<close> capabilities are \<open>None\<close>.
\<close>

record user =
  u_name :: string
  u_controller :: string
  u_signer :: string
  u_kmsCapability :: "Capability option"
  u_edvCapability :: "Capability option"
  u_edvDID :: string
  u_vaultID :: string

subsection \<open>The environment\<close>

text \<open>
  What the steps obtain from code that is not verified here is a parameter of the
  model: the three constructors behind the JSON-LD document loader (an error message, or
  success), the UUID and the time stamp of the next capability, the linked-data signature
  over a capability document (a failure, which may be a panic, or the signature value),
  \<open>CompressZCAP\<close> of \<open>pkg/zcapld\<close> (error message or bytes), \<open>prepareGetRequest\<close> and
  \<open>preparePostRequest\<close> of the test user, the HTTP message signature (error message or
  the value of the signature header), \<open>httpClient.Do\<close>, \<open>processResponse\<close> of the test
  user (error message, or the response status it records), and the key server URL of the
  BDD context.
\<close>

record env =
  NewContextStore :: "string option"
  NewRemoteProviderStore :: "string option"
  NewDocumentLoader :: "string option"
  newUUID :: string
  proofCreated :: string
  signDocument :: "Signer \<Rightarrow> Capability \<Rightarrow> jvalue list \<Rightarrow> failure + string"
  CompressZCAP :: "Capability \<Rightarrow> string + 8 word list"
  prepareGetRequest :: "user \<Rightarrow> string \<Rightarrow> string + request"
  preparePostRequest :: "user \<Rightarrow> jvalue \<Rightarrow> string \<Rightarrow> string + request"
  hsSign :: "string \<Rightarrow> request \<Rightarrow> string + string"
  httpClientDo :: "request \<Rightarrow> string + response"
  processResponse :: "response \<Rightarrow> string + string"
  KeyServerURL :: string

text \<open>\<open>fmt.Errorf("prefix: %w", err)\<close>; a panic is not an error value and passes through.\<close>

fun wrap :: "string \<Rightarrow> failure \<Rightarrow> failure" where
  "wrap prefix (Error msg) = Error (prefix @ msg)"
| "wrap prefix (Panic msg) = Panic msg"

definition nilDereference :: failure where
  "nilDereference = Panic ''invalid memory address or nil pointer dereference''"

definition createJSONLDDocumentLoader :: "env \<Rightarrow> failure + unit" where
  "createJSONLDDocumentLoader e =
     (case NewContextStore e of
        Some err \<Rightarrow> Inl (Error (''create JSON-LD context store: '' @ err))
      | None \<Rightarrow>
     (case NewRemoteProviderStore e of
        Some err \<Rightarrow> Inl (Error (''create remote provider store: '' @ err))
      | None \<Rightarrow>
     (case NewDocumentLoader e of
        Some err \<Rightarrow> Inl (Error (''new document loader: '' @ err))
      | None \<Rightarrow> Inr ())))"

subsection \<open>Minting a capability\<close>

definition noOptions :: CapabilityOptions where
  "noOptions = \<lparr>opt_Invoker = [], opt_Parent = [], opt_AllowedAction = [],
                 opt_InvocationTarget = \<lparr>target_ID = [], target_Type = []\<rparr>,
                 opt_CapabilityChain = []\<rparr>"

fun applyOption :: "CapabilityOptions \<Rightarrow> CapabilityOption \<Rightarrow> CapabilityOptions" where
  "applyOption opts (WithInvoker i) = opts\<lparr>opt_Invoker := i\<rparr>"
| "applyOption opts (WithParent p) = opts\<lparr>opt_Parent := p\<rparr>"
| "applyOption opts (WithInvocationTarget i t) =
     opts\<lparr>opt_InvocationTarget := \<lparr>target_ID = i, target_Type = t\<rparr>\<rparr>"
| "applyOption opts (WithAllowedActions as) = opts\<lparr>opt_AllowedAction := as\<rparr>"
| "applyOption opts (WithCapabilityChain chain) = opts\<lparr>opt_CapabilityChain := chain\<rparr>"

text \<open>
  Modelled from the spec: \<open>zcapld.NewCapability\<close> and its options belong to the edge-core
  library, not in the sources verified here. Following the spec's issuance and delegation contracts, it
  assigns a fresh identifier, sets each field an option names, signs the document with
  the signer and attaches one proof carrying \<open>verificationMethod\<close>, \<open>created\<close>,
  \<open>proofPurpose\<close>, \<open>capabilityChain\<close> and the signature value; it fails, with the
  failure of \<open>signDocument\<close>, when canonicalisation or signing fails. It receives the
  parent's identifier only, never the parent's actions or proofs.
\<close>

definition NewCapability :: "env \<Rightarrow> Signer \<Rightarrow> CapabilityOption list \<Rightarrow> failure + Capability" where
  "NewCapability e sg options =
     (let opts = foldl applyOption noOptions options;
          zcap = \<lparr>ID = ''urn:uuid:'' @ newUUID e,
                  Invoker = opt_Invoker opts,
                  Parent = opt_Parent opts,
                  AllowedAction = opt_AllowedAction opts,
                  InvocationTarget = opt_InvocationTarget opts,
                  Proof = []\<rparr>
      in case signDocument e sg zcap (opt_CapabilityChain opts) of
           Inl err \<Rightarrow> Inl err
         | Inr sv \<Rightarrow>
             Inr (zcap\<lparr>Proof :=
               [[(''type'', JString (SuiteType sg)),
                 (''created'', JString (proofCreated e)),
                 (''verificationMethod'', JString (VerificationMethod sg)),
                 (''proofPurpose'', JString ''capabilityDelegation''),
                 (''capabilityChain'', JArray (opt_CapabilityChain opts)),
                 (''signatureValue'', JString sv)]]\<rparr>))"

text \<open>
  The chain a capability carries, read the way \<open>delegateCapability\<close> reads its parent's:
  the \<open>capabilityChain\<close> entry of the first proof when that is a list, nothing otherwise.
\<close>

definition proofChain :: "proof_map \<Rightarrow> jvalue list" where
  "proofChain p = (case map_of p ''capabilityChain'' of Some (JArray untyped) \<Rightarrow> untyped | _ \<Rightarrow> [])"

definition capabilityChain :: "Capability \<Rightarrow> jvalue list" where
  "capabilityChain c = (case Proof c of [] \<Rightarrow> [] | p # _ \<Rightarrow> proofChain p)"

text \<open>
  Modelled from the spec: the action constants \<open>actionExportKey\<close>, \<open>actionCreateKey\<close>
  and the ten others (declared in a step file not verified here) and
  \<open>zcapld.CapabilityInvocationHTTPHeader\<close> (edge-core). The spec lists the twelve
  actions by name and calls the header the capability-invocation header; the header name
  is written in the canonical form \<open>Header.Set\<close> stores.
\<close>

definition actionExportKey :: string where
  "actionExportKey = ''export-key''"

definition actionCreateKey :: string where "actionCreateKey = ''create-key''"
definition actionImportKey :: string where "actionImportKey = ''import-key''"
definition actionRotateKey :: string where "actionRotateKey = ''rotate-key''"
definition actionSign :: string where "actionSign = ''sign''"
definition actionVerify :: string where "actionVerify = ''verify''"
definition actionEncrypt :: string where "actionEncrypt = ''encrypt''"
definition actionDecrypt :: string where "actionDecrypt = ''decrypt''"
definition actionComputeMac :: string where "actionComputeMac = ''compute-mac''"
definition actionVerifyMAC :: string where "actionVerifyMAC = ''verify-mac''"
definition actionWrap :: string where "actionWrap = ''wrap''"
definition actionUnwrap :: string where "actionUnwrap = ''unwrap''"

definition CapabilityInvocationHTTPHeader :: string where
  "CapabilityInvocationHTTPHeader = ''Capability-Invocation''"

definition ed25519SignatureType :: string where
  "ed25519SignatureType = ''Ed25519Signature2018''"

subsection \<open>createChainCapability and delegateCapability\<close>

text \<open>
  \<open>createChainCapability\<close>. The constant \<open>edvResource\<close> is declared in another step file and is
  an argument here. The arguments of \<open>NewCapability\<close> are evaluated after the loader is
  built, so a \<open>nil\<close> \<open>u.edvCapability\<close> panics there.
\<close>

definition createChainCapability :: "env \<Rightarrow> string \<Rightarrow> user \<Rightarrow> failure + Capability" where
  "createChainCapability e edvResource u =
     (case createJSONLDDocumentLoader e of
        Inl err \<Rightarrow> Inl (wrap ''create document loader: '' err)
      | Inr loader \<Rightarrow>
          (case u_edvCapability u of
             None \<Rightarrow> Inl nilDereference
           | Some ec \<Rightarrow>
               NewCapability e
                 \<lparr>SignatureSuite = u_signer u, SuiteType = ed25519SignatureType,
                  VerificationMethod = u_controller u\<rparr>
                 [WithParent (ID ec),
                  WithInvoker (u_edvDID u),
                  WithAllowedActions [''read'', ''write''],
                  WithInvocationTarget (u_vaultID u) edvResource,
                  WithCapabilityChain [JString (Parent ec), JString (ID ec)]]))"

text \<open>
  The first lines of \<open>delegateCapability\<close>: \<open>c.Proof[0]\<close> panics on an empty proof list;
  the type assertion \<open>.([]interface{})\<close> leaves the chain empty when the entry is missing
  or is not a list; \<open>c.ID\<close> is appended.
\<close>

definition delegationChain :: "Capability \<Rightarrow> failure + jvalue list" where
  "delegationChain c =
     (case Proof c of
        [] \<Rightarrow> Inl (Panic ''index out of range [0] with length 0'')
      | p # _ \<Rightarrow> Inr (proofChain p @ [JString (ID c)]))"

text \<open>
  \<open>delegateCapability\<close> up to the delegated capability, before it is compressed. The
  function has no parameter for the actions or the target of the new capability.
\<close>

definition delegatedCapability ::
  "env \<Rightarrow> Capability option \<Rightarrow> string \<Rightarrow> string \<Rightarrow> string \<Rightarrow> failure + Capability" where
  "delegatedCapability e c s verificationMethod invoker =
     (case c of
        None \<Rightarrow> Inl nilDereference
      | Some cc \<Rightarrow>
     (case delegationChain cc of
        Inl err \<Rightarrow> Inl err
      | Inr chain \<Rightarrow>
     (case createJSONLDDocumentLoader e of
        Inl err \<Rightarrow> Inl (wrap ''create document loader: '' err)
      | Inr loader \<Rightarrow>
     (case NewCapability e
              \<lparr>SignatureSuite = s, SuiteType = ed25519SignatureType,
               VerificationMethod = verificationMethod\<rparr>
              [WithInvoker invoker,
               WithParent (ID cc),
               WithInvocationTarget (target_ID (InvocationTarget cc))
                                    (target_Type (InvocationTarget cc)),
               WithAllowedActions [actionExportKey],
               WithCapabilityChain chain] of
        Inl err \<Rightarrow> Inl (wrap ''failed to delegate zcap unto user: '' err)
      | Inr d \<Rightarrow> Inr d))))"

text \<open>The call of \<open>NewCapability\<close> that \<open>delegateCapability\<close> makes for a parent whose first proof is \<open>p\<close>.\<close>

abbreviation delegationCall ::
  "env \<Rightarrow> Capability \<Rightarrow> string \<Rightarrow> string \<Rightarrow> string \<Rightarrow> proof_map \<Rightarrow> failure + Capability" where
  "delegationCall e c s verificationMethod invoker p \<equiv>
     NewCapability e
       \<lparr>SignatureSuite = s, SuiteType = ed25519SignatureType,
        VerificationMethod = verificationMethod\<rparr>
       [WithInvoker invoker,
        WithParent (ID c),
        WithInvocationTarget (target_ID (InvocationTarget c))
                             (target_Type (InvocationTarget c)),
        WithAllowedActions [actionExportKey],
        WithCapabilityChain (proofChain p @ [JString (ID c)])]"

definition delegateCapability ::
  "env \<Rightarrow> Capability option \<Rightarrow> string \<Rightarrow> string \<Rightarrow> string \<Rightarrow> failure + 8 word list" where
  "delegateCapability e c s verificationMethod invoker =
     (case delegatedCapability e c s verificationMethod invoker of
        Inl err \<Rightarrow> Inl err
      | Inr d \<Rightarrow>
          (case CompressZCAP e d of
             Inl err \<Rightarrow> Inl (Error (''failed to compress zcap: '' @ err))
           | Inr compressed \<Rightarrow> Inr compressed))"

subsection \<open>The capability-invocation header\<close>

text \<open>
  \<open>fmt.Sprintf\<close>, for formats whose only verb is \<open>%s\<close> with string arguments (the one
  format of this file is such): each \<open>%s\<close> is replaced by the next argument, and by Go's
  marker when the arguments have run out.
\<close>

fun Sprintf :: "string \<Rightarrow> string list \<Rightarrow> string" where
  "Sprintf (c # d # rest) args =
     (if c = CHR ''%'' \<and> d = CHR ''s''
      then (case args of
              a # as \<Rightarrow> a @ Sprintf rest as
            | [] \<Rightarrow> ''%!s(MISSING)'' @ Sprintf rest [])
      else c # Sprintf (d # rest) args)"
| "Sprintf fmt args = fmt"

text \<open>
  The format of \<open>setCapabilityHeader\<close>, a raw string literal in the source:
  \<^verbatim>\<open>zcap capability="%s",action="%s"\<close>. The double quote is \<open>CHR 0x22\<close>.
\<close>

definition capabilityHeaderFormat :: string where
  "capabilityHeaderFormat =
     ''zcap capability='' @ [CHR 0x22] @ ''%s'' @ [CHR 0x22]
     @ '',action='' @ [CHR 0x22] @ ''%s'' @ [CHR 0x22]"

text \<open>
  \<open>base64.URLEncoding.EncodeToString\<close>: three bytes give four characters of the URL-safe
  alphabet; a rest of one or two bytes is padded with \<open>=\<close>. The 24-bit group is held in
  a natural number, as it never leaves the range of Go's \<open>uint\<close>.
\<close>

definition encodeURL :: string where
  "encodeURL = ''ABCDEFGHIJKLMNOPQRSTUVWXYZabcdefghijklmnopqrstuvwxyz0123456789-_''"

fun EncodeToString :: "8 word list \<Rightarrow> string" where
  "EncodeToString (a # b # c # rest) =
     (let val = push_bit 16 (unat a) OR push_bit 8 (unat b) OR unat c in
      [encodeURL ! (drop_bit 18 val AND 63), encodeURL ! (drop_bit 12 val AND 63),
       encodeURL ! (drop_bit 6 val AND 63), encodeURL ! (val AND 63)]
      @ EncodeToString rest)"
| "EncodeToString [a, b] =
     (let val = push_bit 16 (unat a) OR push_bit 8 (unat b) in
      [encodeURL ! (drop_bit 18 val AND 63), encodeURL ! (drop_bit 12 val AND 63),
       encodeURL ! (drop_bit 6 val AND 63), CHR ''=''])"
| "EncodeToString [a] =
     (let val = push_bit 16 (unat a) in
      [encodeURL ! (drop_bit 18 val AND 63), encodeURL ! (drop_bit 12 val AND 63),
       CHR ''='', CHR ''=''])"
| "EncodeToString [] = []"

text \<open>\<open>request.Header.Set(key, value)\<close> for a key in canonical form.\<close>

definition Header_Set ::
  "(string \<times> string list) list \<Rightarrow> string \<Rightarrow> string \<Rightarrow> (string \<times> string list) list" where
  "Header_Set h key v = AList.update key [v] h"

definition signatureHeader :: string where
  "signatureHeader = ''Signature''"

text \<open>
  \<open>setCapabilityHeader\<close>. The request is changed in place, so the model returns it next
  to the error: the header is set first, and the signing library then adds its own
  signature header or fails. The key manager and crypto arguments only configure the
  signature and are part of \<open>hsSign\<close>.
\<close>

definition setCapabilityHeader ::
  "env \<Rightarrow> request \<Rightarrow> string \<Rightarrow> string \<Rightarrow> request \<times> failure option" where
  "setCapabilityHeader e req capability ctrl =
     (let r1 = req\<lparr>Header := Header_Set (Header req) CapabilityInvocationHTTPHeader
                              (Sprintf capabilityHeaderFormat [capability, actionExportKey])\<rparr>
      in case hsSign e ctrl r1 of
           Inl err \<Rightarrow> (r1, Some (Error (''user failed to sign request: '' @ err)))
         | Inr sv \<Rightarrow> (r1\<lparr>Header := Header_Set (Header r1) signatureHeader sv\<rparr>, None))"

definition exportKeyEndpoint :: string where
  "exportKeyEndpoint = ''/v1/keystores/{keystoreID}/keys/{keyID}/export''"

text \<open>
  \<open>getPubKeyOfRecipient\<close> up to the request it hands to \<open>httpClient.Do\<close>. \<open>s.users\<close> is
  a map to user pointers: a missing recipient is an error, a missing user is a \<open>nil\<close>
  that panics when \<open>u.controller\<close> is read for the call of \<open>delegateCapability\<close>.
\<close>

definition getPubKeyOfRecipientReq ::
  "env \<Rightarrow> (string \<times> user) list \<Rightarrow> string \<Rightarrow> string \<Rightarrow> failure + request" where
  "getPubKeyOfRecipientReq e users userName recipientName =
     (case map_of users recipientName of
        None \<Rightarrow> Inl (Error (''no recipient with name '' @ recipientName @ '' exist''))
      | Some recipient \<Rightarrow>
     (case prepareGetRequest e recipient (KeyServerURL e @ exportKeyEndpoint) of
        Inl err \<Rightarrow> Inl (Error err)
      | Inr req \<Rightarrow>
     (case map_of users userName of
        None \<Rightarrow> Inl nilDereference
      | Some u \<Rightarrow>
     (case delegateCapability e (u_kmsCapability recipient) (u_signer recipient)
              (u_controller recipient) (u_controller u) of
        Inl err \<Rightarrow> Inl (wrap ''delegate capability: '' err)
      | Inr c \<Rightarrow>
     (case setCapabilityHeader e req (EncodeToString c) (u_controller u) of
        (r, Some err) \<Rightarrow> Inl err
      | (r, None) \<Rightarrow> Inr r)))))"

subsection \<open>The signed invocations of the other steps\<close>

text \<open>
  Modelled from the spec: \<open>user.SetCapabilityInvocation\<close> and \<open>user.Sign\<close> are
  declared in a step file that is not verified here. Following the spec's invocation
  signing protocol, the first requires the action to be among the allowed actions of the
  capability used (\<open>InvocationError\<close> otherwise) and attaches the capability-invocation
  header carrying the compressed capability, base64-encoded, and the requested action;
  the second computes the HTTP message signature with the invoker's key and attaches it
  as a header, or fails with \<open>InvocationError\<close>.
\<close>

definition SetCapabilityInvocation :: "env \<Rightarrow> user \<Rightarrow> request \<Rightarrow> string \<Rightarrow> failure + request" where
  "SetCapabilityInvocation e u req action =
     (case u_kmsCapability u of
        None \<Rightarrow> Inl (Error ''InvocationError: no capability'')
      | Some c \<Rightarrow>
          if action \<notin> set (AllowedAction c)
          then Inl (Error ''InvocationError: action not allowed'')
          else (case CompressZCAP e c of
                  Inl err \<Rightarrow> Inl (Error (''CompressionError: '' @ err))
                | Inr compressed \<Rightarrow>
                    Inr (req\<lparr>Header := Header_Set (Header req) CapabilityInvocationHTTPHeader
                           (Sprintf capabilityHeaderFormat
                              [EncodeToString compressed, action])\<rparr>)))"

definition Sign :: "env \<Rightarrow> user \<Rightarrow> request \<Rightarrow> failure + request" where
  "Sign e u req =
     (case hsSign e (u_controller u) req of
        Inl err \<Rightarrow> Inl (Error (''InvocationError: '' @ err))
      | Inr sv \<Rightarrow> Inr (req\<lparr>Header := Header_Set (Header req) signatureHeader sv\<rparr>))"

text \<open>
  The twelve places where the steps call \<open>SetCapabilityInvocation\<close>, by the function
  they are in. \<open>makeVerifyReq\<close> takes its action as an argument (its callers pass
  \<open>actionVerify\<close> and \<open>actionVerifyMAC\<close>). Each place passes a fixed action and wraps the
  two errors with its own prefixes.
\<close>

datatype builder =
  BuildCreateKeyReq
  | MakeExportPubKeyReq
  | MakeCreateAndExportKeyReq
  | MakeImportKeyReq
  | MakeRotateKeyReq
  | MakeSignMessageReq
  | MakeEncryptMessageReq
  | MakeDecryptCipherReq
  | MakeComputeMACReq
  | MakeVerifyReq string
  | MakeWrapKeyReq
  | MakeUnwrapKeyReq

fun builderAction :: "builder \<Rightarrow> string" where
  "builderAction BuildCreateKeyReq = actionCreateKey"
| "builderAction MakeExportPubKeyReq = actionExportKey"
| "builderAction MakeCreateAndExportKeyReq = actionCreateKey"
| "builderAction MakeImportKeyReq = actionImportKey"
| "builderAction MakeRotateKeyReq = actionRotateKey"
| "builderAction MakeSignMessageReq = actionSign"
| "builderAction MakeEncryptMessageReq = actionEncrypt"
| "builderAction MakeDecryptCipherReq = actionDecrypt"
| "builderAction MakeComputeMACReq = actionComputeMac"
| "builderAction (MakeVerifyReq action) = action"
| "builderAction MakeWrapKeyReq = actionWrap"
| "builderAction MakeUnwrapKeyReq = actionUnwrap"

fun setInvocationPrefix :: "builder \<Rightarrow> string" where
  "setInvocationPrefix BuildCreateKeyReq = ''failed to set capability invocation: ''"
| "setInvocationPrefix MakeExportPubKeyReq = ''user failed to set capability invocation: ''"
| "setInvocationPrefix MakeCreateAndExportKeyReq = ''failed to set capability invocation: ''"
| "setInvocationPrefix MakeImportKeyReq = ''user failed to set capability invocation: ''"
| "setInvocationPrefix MakeRotateKeyReq = ''user failed to set capability invocation: ''"
| "setInvocationPrefix MakeSignMessageReq = ''user failed to set zcap on request: ''"
| "setInvocationPrefix MakeEncryptMessageReq = ''user failed to set zcap on request: ''"
| "setInvocationPrefix MakeDecryptCipherReq = ''user failed to set zcap: ''"
| "setInvocationPrefix MakeComputeMACReq = ''user failed to set zcap: ''"
| "setInvocationPrefix (MakeVerifyReq action) = ''user failed to set zcap on request: ''"
| "setInvocationPrefix MakeWrapKeyReq = ''user failed to set zcap: ''"
| "setInvocationPrefix MakeUnwrapKeyReq = ''user failed to set zcap: ''"

fun signPrefix :: "builder \<Rightarrow> string" where
  "signPrefix BuildCreateKeyReq = ''user failed to sign http message: ''"
| "signPrefix MakeCreateAndExportKeyReq = ''user failed to sign http message: ''"
| "signPrefix b = ''user failed to sign request: ''"

text \<open>
  What every one of these functions does between preparing its request and sending it:
  the error of the preparation is returned as it is, then the invocation header is set,
  then the request is signed. \<open>prepared\<close> is the result of the function's call of
  \<open>preparePostRequest\<close>, \<open>prepareGetRequest\<close> or \<open>preparePutRequest\<close>.
\<close>

definition signedRequest :: "env \<Rightarrow> user \<Rightarrow> builder \<Rightarrow> string + request \<Rightarrow> failure + request" where
  "signedRequest e u b prepared =
     (case prepared of
        Inl err \<Rightarrow> Inl (Error err)
      | Inr req \<Rightarrow>
     (case SetCapabilityInvocation e u req (builderAction b) of
        Inl err \<Rightarrow> Inl (wrap (setInvocationPrefix b) err)
      | Inr r1 \<Rightarrow>
     (case Sign e u r1 of
        Inl err \<Rightarrow> Inl (wrap (signPrefix b) err)
      | Inr r2 \<Rightarrow> Inr r2)))"

text \<open>
  \<open>buildCreateKeyReq\<close>; the body is the \<open>createKeyReq\<close> with its key type, and a \<open>nil\<close>
  user panics.
\<close>

definition buildCreateKeyReq :: "env \<Rightarrow> user option \<Rightarrow> string \<Rightarrow> string \<Rightarrow> failure + request" where
  "buildCreateKeyReq e u endpoint keyType =
     (case u of
        None \<Rightarrow> Inl nilDereference
      | Some uu \<Rightarrow>
          signedRequest e uu BuildCreateKeyReq
            (preparePostRequest e uu (JObject [(''KeyType'', JString keyType)]) endpoint))"

subsection \<open>Decoding base64\<close>

text \<open>
  \<open>base64.URLEncoding.DecodeString\<close>, the inverse the receiver of the header applies:
  four characters of the alphabet give three bytes, and the last four may end in one or
  two \<open>=\<close>. Anything else is an error (\<open>None\<close>).
\<close>

fun indexOf :: "char \<Rightarrow> string \<Rightarrow> nat option" where
  "indexOf c [] = None"
| "indexOf c (x # xs) = (if c = x then Some 0 else map_option Suc (indexOf c xs))"

definition decodeQuantum :: "nat \<Rightarrow> nat \<Rightarrow> nat \<Rightarrow> nat \<Rightarrow> 8 word list" where
  "decodeQuantum i0 i1 i2 i3 =
     (let val = push_bit 18 i0 OR push_bit 12 i1 OR push_bit 6 i2 OR i3 in
      [of_nat (drop_bit 16 val), of_nat (drop_bit 8 val), of_nat val])"

fun DecodeString :: "string \<Rightarrow> 8 word list option" where
  "DecodeString [] = Some []"
| "DecodeString (c0 # c1 # c2 # c3 # rest) =
     (case (indexOf c0 encodeURL, indexOf c1 encodeURL) of
        (Some i0, Some i1) \<Rightarrow>
          if rest = [] \<and> c2 = CHR ''='' \<and> c3 = CHR ''=''
          then Some (take 1 (decodeQuantum i0 i1 0 0))
          else (case indexOf c2 encodeURL of
                  None \<Rightarrow> None
                | Some i2 \<Rightarrow>
                    if rest = [] \<and> c3 = CHR ''=''
                    then Some (take 2 (decodeQuantum i0 i1 i2 0))
                    else (case indexOf c3 encodeURL of
                            None \<Rightarrow> None
                          | Some i3 \<Rightarrow>
                              map_option (\<lambda>bs. decodeQuantum i0 i1 i2 i3 @ bs)
                                (DecodeString rest)))
      | _ \<Rightarrow> None)"
| "DecodeString cs = None"

subsection \<open>Parallel requests\<close>

text \<open>\<open>strings.Split\<close> for a separator of one character.\<close>

fun splitFrom :: "string \<Rightarrow> char \<Rightarrow> string \<Rightarrow> string list" where
  "splitFrom field sep [] = [field]"
| "splitFrom field sep (c # cs) =
     (if c = sep then field # splitFrom [] sep cs else splitFrom (field @ [c]) sep cs)"

definition Split :: "string \<Rightarrow> char \<Rightarrow> string list" where
  "Split s sep = splitFrom [] sep s"

text \<open>
  \<open>processCreateKeyResp\<close>, as far as the parallel step uses it: the error of
  \<open>processResponse\<close> wrapped, or the status that \<open>processResponse\<close> recorded. (The key
  identifier and the data it stores go to a user the goroutine discards.)
\<close>

definition processCreateKeyResp :: "env \<Rightarrow> response \<Rightarrow> string + string" where
  "processCreateKeyResp e resp =
     (case processResponse e resp of
        Inl err \<Rightarrow> Inl (''process response: '' @ err)
      | Inr st \<Rightarrow> Inr st)"

text \<open>
  One value received by the \<open>select\<close> of the wait loop: an error from \<open>errCh\<close> or a
  status from \<open>statusCh\<close>. The goroutine started for a request sends exactly one of them,
  on each of its three paths.
\<close>

datatype received = ErrCh string | StatusCh string

definition createKeyUnit :: "env \<Rightarrow> request \<Rightarrow> received" where
  "createKeyUnit e req =
     (case httpClientDo e req of
        Inl err \<Rightarrow> ErrCh err
      | Inr resp \<Rightarrow>
          (case processCreateKeyResp e resp of
             Inl err \<Rightarrow> ErrCh err
           | Inr st \<Rightarrow> StatusCh st))"

text \<open>
  The wait loop \<open>for respCount > 0 { select { ... } }\<close> is a recursion over the values
  it receives, in the order it receives them; which values arrive and in which order is
  decided by the goroutines and the scheduler, so the sequence is an argument. With
  nothing left to receive and a count above zero the loop is blocked in its \<open>select\<close>.
\<close>

datatype 'a run = Blocked | Returned 'a

fun waitLoop :: "nat \<Rightarrow> received list \<Rightarrow> string list \<Rightarrow> (failure + string list) run" where
  "waitLoop 0 rs multiRespStatus = Returned (Inr multiRespStatus)"
| "waitLoop (Suc respCount) [] multiRespStatus = Blocked"
| "waitLoop (Suc respCount) (ErrCh err # rs) multiRespStatus = Returned (Inl (Error err))"
| "waitLoop (Suc respCount) (StatusCh st # rs) multiRespStatus =
     waitLoop respCount rs (multiRespStatus @ [st])"

text \<open>The first loop of \<open>makeParallelCreateKeyReqs\<close>: one request for each key type.\<close>

fun buildCreateKeyReqs :: "env \<Rightarrow> user option \<Rightarrow> string \<Rightarrow> string list \<Rightarrow> failure + request list" where
  "buildCreateKeyReqs e u endpoint [] = Inr []"
| "buildCreateKeyReqs e u endpoint (kt # kts) =
     (case buildCreateKeyReq e u endpoint kt of
        Inl err \<Rightarrow> Inl (wrap ''build create key request: '' err)
      | Inr r \<Rightarrow>
          (case buildCreateKeyReqs e u endpoint kts of
             Inl err \<Rightarrow> Inl err
           | Inr rr \<Rightarrow> Inr (r # rr)))"

text \<open>
  \<open>makeParallelCreateKeyReqs\<close>: the requests are built, one goroutine is started for
  each, and the wait loop runs with the number of requests as its count. A normal return
  carries the list stored in \<open>u.multiRespStatus\<close>.
\<close>

definition makeParallelCreateKeyReqs ::
  "env \<Rightarrow> (string \<times> user) list \<Rightarrow> string \<Rightarrow> string \<Rightarrow> string \<Rightarrow> received list
   \<Rightarrow> (failure + string list) run" where
  "makeParallelCreateKeyReqs e users userName endpoint keyTypes rs =
     (case buildCreateKeyReqs e (map_of users userName) endpoint (Split keyTypes (CHR '','')) of
        Inl err \<Rightarrow> Returned (Inl err)
      | Inr rr \<Rightarrow> waitLoop (length rr) rs [])"

subsection \<open>Example inputs\<close>

text \<open>An environment in which every collaborator succeeds.\<close>

definition exampleEnv :: env where
  "exampleEnv =
     \<lparr>NewContextStore = None, NewRemoteProviderStore = None, NewDocumentLoader = None,
      newUUID = ''6f1c0d6e-0001'',
      proofCreated = ''2020-11-25T12:37:49Z'',
      signDocument = (\<lambda>sg zcap chain. Inr ''c2lnbmVk''),
      CompressZCAP = (\<lambda>zcap. Inr [0x1f, 0x8b, 0x08, 0x00]),
      prepareGetRequest = (\<lambda>u url. Inr \<lparr>Method = ''GET'', URL = url, Header = []\<rparr>),
      preparePostRequest = (\<lambda>u body url. Inr \<lparr>Method = ''POST'', URL = url, Header = []\<rparr>),
      hsSign = (\<lambda>ctrl req. Inr ''keyId=did:key:bob''),
      httpClientDo = (\<lambda>req. Inr \<lparr>resp_status = ''201 Created'', resp_body = []\<rparr>),
      processResponse = (\<lambda>resp. Inr (resp_status resp)),
      KeyServerURL = ''https://localhost:8076''\<rparr>"

text \<open>
  A capability on a vault that allows reading and writing, one hop from its root; a
  keystore capability that allows exporting keys; and a capability whose recorded chain
  already names the capability itself.
\<close>

definition vaultCapability :: Capability where
  "vaultCapability =
     \<lparr>ID = ''urn:uuid:vault-zcap'', Invoker = ''did:key:alice'', Parent = ''urn:uuid:root'',
      AllowedAction = [''read'', ''write''],
      InvocationTarget = \<lparr>target_ID = ''vault-1'', target_Type = ''urn:edv:vault''\<rparr>,
      Proof = [[(''capabilityChain'', JArray [JString ''urn:uuid:root''])]]\<rparr>"

definition keystoreCapability :: Capability where
  "keystoreCapability =
     \<lparr>ID = ''urn:uuid:kms-zcap'', Invoker = ''did:key:alice'', Parent = [],
      AllowedAction = [''create-key'', ''export-key'', ''sign''],
      InvocationTarget = \<lparr>target_ID = ''keystore-1'', target_Type = ''urn:kms:keystore''\<rparr>,
      Proof = [[(''proofPurpose'', JString ''capabilityDelegation'')]]\<rparr>"

definition cyclicCapability :: Capability where
  "cyclicCapability =
     \<lparr>ID = ''urn:uuid:loop'', Invoker = ''did:key:alice'', Parent = ''urn:uuid:root'',
      AllowedAction = [''export-key''],
      InvocationTarget = \<lparr>target_ID = ''keystore-1'', target_Type = ''urn:kms:keystore''\<rparr>,
      Proof = [[(''capabilityChain'', JArray [JString ''urn:uuid:root'', JString ''urn:uuid:loop''])]]\<rparr>"

definition alice :: user where
  "alice = \<lparr>u_name = ''alice'', u_controller = ''did:key:alice'', u_signer = ''alice-key'',
            u_kmsCapability = Some keystoreCapability, u_edvCapability = Some vaultCapability,
            u_edvDID = ''did:key:kms'', u_vaultID = ''vault-1''\<rparr>"

definition bob :: user where
  "bob = \<lparr>u_name = ''bob'', u_controller = ''did:key:bob'', u_signer = ''bob-key'',
          u_kmsCapability = None, u_edvCapability = None,
          u_edvDID = [], u_vaultID = []\<rparr>"

text \<open>
  A user whose vault identifier names another vault than the one the capability it holds
  is for.
\<close>

definition carol :: user where
  "carol = \<lparr>u_name = ''carol'', u_controller = ''did:key:carol'', u_signer = ''carol-key'',
            u_kmsCapability = None, u_edvCapability = Some vaultCapability,
            u_edvDID = ''did:key:kms'', u_vaultID = ''vault-2''\<rparr>"

section \<open>Properties of the metrics provider\<close>

lemmas metrics_consts =
  crypto_def db_def keyStore_def namespace_def cryptoSignTimeMetric_def dbPutTimeMetric_def
  dbGetTimeMetric_def dbGetTagsTimeMetric_def dbGetBulkTimeMetric_def dbQueryTimeMetric_def
  dbDeleteTimeMetric_def dbBatchTimeMetric_def keyStoreResolveTimeMetric_def
  keyStoreGetKeyTimeMetric_def

lemmas metrics_ctors =
  newDBPutTime_def newDBGetTime_def newDBGetTagsTime_def newDBGetBulkTime_def
  newDBQueryTime_def newDBDeleteTime_def newDBBatchTime_def newCryptoSignTime_def
  newKeyStoreResolveTime_def newKeyStoreGetKeyTime_def newHistogram_def

subsection \<open>Lookups in the per-backend maps\<close>

lemma dbTimeLoop_absent:
  "k \<notin> set ts \<Longrightarrow> map_of cs k = None \<Longrightarrow> map_of (dbTimeLoop name help ts r cs) k = None"
  by (induction ts arbitrary: r cs) (simp_all add: update_conv')

lemma recordDB_absent:
  "map_of (field m) dbType = None \<Longrightarrow> recordDB field (Some m) dbType v p = Inr p"
  by (simp add: recordDB_def)

lemma buildMetrics_fields:
  "dbPutTimes (buildMetrics r) = newDBPutTime dbTypes (r + 1)"
  "dbGetTimes (buildMetrics r) = newDBGetTime dbTypes (r + 1 + length dbTypes)"
  "dbGetTagsTimes (buildMetrics r) = newDBGetTagsTime dbTypes (r + 1 + 2 * length dbTypes)"
  "dbGetBulkTimes (buildMetrics r) = newDBGetBulkTime dbTypes (r + 1 + 3 * length dbTypes)"
  "dbQueryTimes (buildMetrics r) = newDBQueryTime dbTypes (r + 1 + 4 * length dbTypes)"
  "dbDeleteTimes (buildMetrics r) = newDBDeleteTime dbTypes (r + 1 + 5 * length dbTypes)"
  "dbBatchTimes (buildMetrics r) = newDBBatchTime dbTypes (r + 1 + 6 * length dbTypes)"
  by (simp_all add: buildMetrics_def Let_def)

lemma buildMetrics_absent:
  assumes "dbType \<notin> set dbTypes"
  shows "map_of (dbPutTimes (buildMetrics r)) dbType = None"
    and "map_of (dbGetTimes (buildMetrics r)) dbType = None"
    and "map_of (dbGetTagsTimes (buildMetrics r)) dbType = None"
    and "map_of (dbGetBulkTimes (buildMetrics r)) dbType = None"
    and "map_of (dbQueryTimes (buildMetrics r)) dbType = None"
    and "map_of (dbDeleteTimes (buildMetrics r)) dbType = None"
    and "map_of (dbBatchTimes (buildMetrics r)) dbType = None"
  using assms
  by (simp_all add: buildMetrics_fields newDBPutTime_def newDBGetTime_def newDBGetTagsTime_def
      newDBGetBulkTime_def newDBQueryTime_def newDBDeleteTime_def newDBBatchTime_def
      dbTimeLoop_absent)

text \<open>
  For contrast with the claim below: a backend that is in the list is observed. The put
  histogram of \<open>EDV\<close> is the third object allocated after the sign histogram.
\<close>

lemma DBPutTime_known_type_observes:
  "DBPutTime (Some (buildMetrics 0)) ''EDV'' 5 processStart
     = Inr (processStart\<lparr>observed := [(3, 5)]\<rparr>)"
  by (simp add: DBPutTime_def recordDB_def Observe_def buildMetrics_def Let_def dbTypes_def
      newDBPutTime_def newHistogram_def processStart_def)

text \<open>
  Claim C10. For every \<open>dbType\<close> outside \<open>CouchDB\<close>, \<open>MongoDB\<close>, \<open>EDV\<close> and
  every duration, each of the seven per-backend recorders, called on a provider built by
  \<open>newMetrics\<close>, returns normally and leaves the whole process state as it was: nothing
  is observed and no metric changes.
\<close>

theorem db_recorders_ignore_unknown_type:
  assumes "dbType \<notin> {''CouchDB'', ''MongoDB'', ''EDV''}"
  shows "DBPutTime (Some (buildMetrics r)) dbType v p = Inr p
       \<and> DBGetTime (Some (buildMetrics r)) dbType v p = Inr p
       \<and> DBGetTagsTime (Some (buildMetrics r)) dbType v p = Inr p
       \<and> DBGetBulkTime (Some (buildMetrics r)) dbType v p = Inr p
       \<and> DBQueryTime (Some (buildMetrics r)) dbType v p = Inr p
       \<and> DBDeleteTime (Some (buildMetrics r)) dbType v p = Inr p
       \<and> DBBatchTime (Some (buildMetrics r)) dbType v p = Inr p"
proof -
  from assms have absent: "dbType \<notin> set dbTypes"
    by (simp add: dbTypes_def)
  show ?thesis
    unfolding DBPutTime_def DBGetTime_def DBGetTagsTime_def DBGetBulkTime_def
      DBQueryTime_def DBDeleteTime_def DBBatchTime_def
    by (simp add: recordDB_absent buildMetrics_absent [OF absent])
qed

theorem db_recorders_ignore_unknown_type_witness:
  "''Redis'' \<notin> {''CouchDB'', ''MongoDB'', ''EDV''}
   \<and> DBPutTime (Some (buildMetrics 0)) ''Redis'' 5 processStart = Inr processStart
   \<and> DBBatchTime (Some (buildMetrics 0)) ''Redis'' 5 processStart = Inr processStart"
proof -
  have unknown: "''Redis'' \<notin> {''CouchDB'', ''MongoDB'', ''EDV''}" by simp
  from db_recorders_ignore_unknown_type [OF unknown, of 0 5 processStart] unknown
  show ?thesis by blast
qed

subsection \<open>The provider is built once\<close>

text \<open>
  The identities and the dimensions of the 24 histograms of a provider, in the order of
  their registration. They do not depend on where the provider is allocated.
\<close>

lemma collectors_ids:
  "map (descID \<circ> histogramDesc) (collectors (buildMetrics r)) =
     [[''kms_crypto_sign_seconds''],
      [''kms_key_store_resolve_seconds''],
      [''kms_key_store_get_key_seconds''],
      [''kms_db_put_seconds'', ''CouchDB''],
      [''kms_db_put_seconds'', ''MongoDB''],
      [''kms_db_put_seconds'', ''EDV''],
      [''kms_db_get_seconds'', ''CouchDB''],
      [''kms_db_get_seconds'', ''MongoDB''],
      [''kms_db_get_seconds'', ''EDV''],
      [''kms_db_get_tags_seconds'', ''CouchDB''],
      [''kms_db_get_tags_seconds'', ''MongoDB''],
      [''kms_db_get_tags_seconds'', ''EDV''],
      [''kms_db_get_bulk_seconds'', ''CouchDB''],
      [''kms_db_get_bulk_seconds'', ''MongoDB''],
      [''kms_db_get_bulk_seconds'', ''EDV''],
      [''kms_db_batch_seconds'', ''CouchDB''],
      [''kms_db_batch_seconds'', ''MongoDB''],
      [''kms_db_batch_seconds'', ''EDV''],
      [''kms_db_delete_seconds'', ''CouchDB''],
      [''kms_db_delete_seconds'', ''MongoDB''],
      [''kms_db_delete_seconds'', ''EDV''],
      [''kms_db_query_seconds'', ''CouchDB''],
      [''kms_db_query_seconds'', ''MongoDB''],
      [''kms_db_query_seconds'', ''EDV'']]"
  by (simp add: collectors_def buildMetrics_def Let_def dbTypes_def metrics_ctors histogramDesc_def
      metrics_consts BuildFQName_def descID_def)

lemma collectors_dims:
  "map ((\<lambda>d. (d_fqName d, dimHash d)) \<circ> histogramDesc) (collectors (buildMetrics r)) =
     [(''kms_crypto_sign_seconds'', [''The time (in seconds) that it takes to sign message.'']),
      (''kms_key_store_resolve_seconds'', [''The time (in seconds) that it takes to resolve keystore.'']),
      (''kms_key_store_get_key_seconds'', [''The time (in seconds) that it takes to get key from keystore.'']),
      (''kms_db_put_seconds'', [''The time (in seconds) it takes the DB to store data.'', ''type'']),
      (''kms_db_put_seconds'', [''The time (in seconds) it takes the DB to store data.'', ''type'']),
      (''kms_db_put_seconds'', [''The time (in seconds) it takes the DB to store data.'', ''type'']),
      (''kms_db_get_seconds'', [''The time (in seconds) it takes the DB to get data.'', ''type'']),
      (''kms_db_get_seconds'', [''The time (in seconds) it takes the DB to get data.'', ''type'']),
      (''kms_db_get_seconds'', [''The time (in seconds) it takes the DB to get data.'', ''type'']),
      (''kms_db_get_tags_seconds'', [''The time (in seconds) it takes the DB to get tags.'', ''type'']),
      (''kms_db_get_tags_seconds'', [''The time (in seconds) it takes the DB to get tags.'', ''type'']),
      (''kms_db_get_tags_seconds'', [''The time (in seconds) it takes the DB to get tags.'', ''type'']),
      (''kms_db_get_bulk_seconds'', [''The time (in seconds) it takes the DB to get bulk.'', ''type'']),
      (''kms_db_get_bulk_seconds'', [''The time (in seconds) it takes the DB to get bulk.'', ''type'']),
      (''kms_db_get_bulk_seconds'', [''The time (in seconds) it takes the DB to get bulk.'', ''type'']),
      (''kms_db_batch_seconds'', [''The time (in seconds) it takes the DB to batch.'', ''type'']),
      (''kms_db_batch_seconds'', [''The time (in seconds) it takes the DB to batch.'', ''type'']),
      (''kms_db_batch_seconds'', [''The time (in seconds) it takes the DB to batch.'', ''type'']),
      (''kms_db_delete_seconds'', [''The time (in seconds) it takes the DB to delete.'', ''type'']),
      (''kms_db_delete_seconds'', [''The time (in seconds) it takes the DB to delete.'', ''type'']),
      (''kms_db_delete_seconds'', [''The time (in seconds) it takes the DB to delete.'', ''type'']),
      (''kms_db_query_seconds'', [''The time (in seconds) it takes the DB to query.'', ''type'']),
      (''kms_db_query_seconds'', [''The time (in seconds) it takes the DB to query.'', ''type'']),
      (''kms_db_query_seconds'', [''The time (in seconds) it takes the DB to query.'', ''type''])]"
  by (simp add: collectors_def buildMetrics_def Let_def dbTypes_def metrics_ctors histogramDesc_def
      metrics_consts BuildFQName_def dimHash_def)

lemma collectors_distinct_ids:
  "distinct (map (descID \<circ> histogramDesc) (collectors (buildMetrics r)))"
  unfolding collectors_ids by simp

lemma collectors_same_dims:
  "sorted_wrt (\<lambda>a b. d_fqName a = d_fqName b \<longrightarrow> dimHash a = dimHash b)
     (map histogramDesc (collectors (buildMetrics r)))"
proof -
  have "sorted_wrt (\<lambda>a b. fst a = fst b \<longrightarrow> snd a = snd b)
          (map ((\<lambda>d. (d_fqName d, dimHash d)) \<circ> histogramDesc) (collectors (buildMetrics r)))"
    unfolding collectors_dims by simp
  then show ?thesis by (simp add: sorted_wrt_map)
qed

lemma collectors_buildMetrics_length:
  "length (collectors (buildMetrics r)) = metricsSize"
  by (simp add: collectors_def buildMetrics_def Let_def dbTypes_def metrics_ctors metricsSize_def)

lemma collectors_kms:
  "c \<in> set (collectors (buildMetrics r)) \<Longrightarrow> take 4 (d_fqName (histogramDesc c)) = ''kms_''"
proof -
  assume "c \<in> set (collectors (buildMetrics r))"
  then have "descID (histogramDesc c) \<in> set (map (descID \<circ> histogramDesc) (collectors (buildMetrics r)))"
    by auto
  then show ?thesis unfolding collectors_ids by (auto simp add: descID_def)
qed


text \<open>When registration succeeds.\<close>

lemma refused_None_iff:
  "refused d reg = None \<longleftrightarrow>
     (\<forall>x \<in> set reg. (d_fqName x = d_fqName d \<longrightarrow> dimHash x = dimHash d) \<and> descID x \<noteq> descID d)"
  by (auto simp add: refused_def) (metis imageI)

lemma MustRegister_accepts:
  "\<forall>x \<in> set reg. \<forall>c \<in> set cs.
      (d_fqName x = d_fqName (histogramDesc c) \<longrightarrow> dimHash x = dimHash (histogramDesc c))
      \<and> descID x \<noteq> descID (histogramDesc c)
   \<Longrightarrow> sorted_wrt (\<lambda>a b. d_fqName a = d_fqName b \<longrightarrow> dimHash a = dimHash b) (map histogramDesc cs)
   \<Longrightarrow> distinct (map (descID \<circ> histogramDesc) cs)
   \<Longrightarrow> MustRegister cs reg = (None, reg @ map histogramDesc cs)"
proof (induction cs arbitrary: reg)
  case Nil
  then show ?case by simp
next
  case (Cons c cs)
  from Cons.prems(1) have "refused (histogramDesc c) reg = None"
    by (simp add: refused_None_iff)
  moreover have "MustRegister cs (reg @ [histogramDesc c])
                   = (None, (reg @ [histogramDesc c]) @ map histogramDesc cs)"
  proof (rule Cons.IH)
    show "\<forall>x \<in> set (reg @ [histogramDesc c]). \<forall>c \<in> set cs.
            (d_fqName x = d_fqName (histogramDesc c) \<longrightarrow> dimHash x = dimHash (histogramDesc c))
            \<and> descID x \<noteq> descID (histogramDesc c)"
      using Cons.prems by auto
    show "sorted_wrt (\<lambda>a b. d_fqName a = d_fqName b \<longrightarrow> dimHash a = dimHash b)
            (map histogramDesc cs)"
      using Cons.prems(2) by simp
    show "distinct (map (descID \<circ> histogramDesc) cs)"
      using Cons.prems(3) by (simp add: comp_def)
  qed
  ultimately show ?case by simp
qed

lemma Get_done: "createOnce p \<Longrightarrow> Get p = (Inr (instance_var p), p)"
  by (simp add: Get_def)

lemma GetTimes_done:
  "createOnce p \<Longrightarrow> GetTimes k p = (replicate k (Inr (instance_var p)), p)"
  by (induction k) (simp_all add: Get_done)

lemma Get_sets_createOnce: "createOnce (snd (Get p))"
  by (simp add: Get_def split: prod.splits sum.splits)

lemma Get_returns_instance: "fst (Get p) = Inr x \<Longrightarrow> x = instance_var (snd (Get p))"
  by (auto simp add: Get_def split: prod.splits sum.splits if_splits)

lemma newMetrics_fresh:
  assumes "\<forall>d \<in> set (registry p). take 4 (d_fqName d) \<noteq> ''kms_''"
  shows "newMetrics p =
           (Inr (buildMetrics (nextRef p)),
            p\<lparr>nextRef := nextRef p + metricsSize,
              registry := registry p @ map histogramDesc (collectors (buildMetrics (nextRef p)))\<rparr>)"
proof -
  let ?cs = "collectors (buildMetrics (nextRef p))"
  have other: "d_fqName x \<noteq> d_fqName (histogramDesc c)"
    if "x \<in> set (registry p)" and "c \<in> set ?cs" for x c
    using that assms collectors_kms [of c "nextRef p"] by auto
  have "\<forall>x \<in> set (registry p). \<forall>c \<in> set ?cs.
          (d_fqName x = d_fqName (histogramDesc c) \<longrightarrow> dimHash x = dimHash (histogramDesc c))
          \<and> descID x \<noteq> descID (histogramDesc c)"
    using other by (auto simp add: descID_def)
  then have "MustRegister ?cs (registry p) = (None, registry p @ map histogramDesc ?cs)"
    by (rule MustRegister_accepts [OF _ collectors_same_dims collectors_distinct_ids])
  then show ?thesis by (simp add: newMetrics_def Let_def)
qed

text \<open>
  For contrast: when the registry already holds a descriptor of the fully qualified name
  and the labels of one of the provider's histograms, here one registered without a
  namespace under the joined name, the first \<open>Get\<close> panics, and the calls after it return
  \<open>nil\<close> without building or registering anything.
\<close>

lemma Get_after_collision:
  "fst (Get (processStart\<lparr>registry :=
          [\<lparr>d_fqName = ''kms_crypto_sign_seconds'',
            d_help = ''The time (in seconds) that it takes to sign message.'',
            d_constLabels = [], d_variableLabels = []\<rparr>]\<rparr>))
     = Inl (Panic ''duplicate metrics collector registration attempted'')
   \<and> fst (Get (snd (Get (processStart\<lparr>registry :=
          [\<lparr>d_fqName = ''kms_crypto_sign_seconds'',
            d_help = ''The time (in seconds) that it takes to sign message.'',
            d_constLabels = [], d_variableLabels = []\<rparr>]\<rparr>)))) = Inr None"
  by (simp add: Get_def newMetrics_def Let_def processStart_def collectors_def buildMetrics_def
      refused_def descID_def dimHash_def histogramDesc_def BuildFQName_def
      newCryptoSignTime_def newHistogram_def metrics_consts)

text \<open>
  Claim C9. The provider is a singleton. Whatever the state \<open>p\<close> in which \<open>Get\<close> is
  first called: any number of later calls return the value of \<open>instance\<close> that the
  first call left and change nothing in the process state (no allocation, no
  registration), and the first call, when it returns, returns that same value. When the
  first call finds the \<open>sync.Once\<close> unused and no descriptor in the registry whose fully
  qualified name begins with \<open>kms_\<close>, it builds the provider and appends the descriptors
  of its 24 histograms, of pairwise different identity, to the registry: each is
  registered exactly once.
\<close>

theorem Get_singleton:
  "GetTimes k (snd (Get p)) = (replicate k (Inr (instance_var (snd (Get p)))), snd (Get p))
   \<and> (\<forall>x. fst (Get p) = Inr x \<longrightarrow> x = instance_var (snd (Get p)))
   \<and> (\<not> createOnce p \<and> (\<forall>d \<in> set (registry p). take 4 (d_fqName d) \<noteq> ''kms_'') \<longrightarrow>
        Get p = (Inr (Some (buildMetrics (nextRef p))),
                 p\<lparr>nextRef := nextRef p + metricsSize,
                   registry := registry p @ map histogramDesc (collectors (buildMetrics (nextRef p))),
                   createOnce := True,
                   instance_var := Some (buildMetrics (nextRef p))\<rparr>)
        \<and> distinct (map (descID \<circ> histogramDesc) (collectors (buildMetrics (nextRef p))))
        \<and> length (collectors (buildMetrics (nextRef p))) = 24)"
proof (intro conjI impI allI)
  show "GetTimes k (snd (Get p)) = (replicate k (Inr (instance_var (snd (Get p)))), snd (Get p))"
    by (rule GetTimes_done [OF Get_sets_createOnce])
next
  fix x assume "fst (Get p) = Inr x"
  then show "x = instance_var (snd (Get p))" by (rule Get_returns_instance)
next
  assume a: "\<not> createOnce p \<and> (\<forall>d \<in> set (registry p). take 4 (d_fqName d) \<noteq> ''kms_'')"
  then show "Get p = (Inr (Some (buildMetrics (nextRef p))),
                 p\<lparr>nextRef := nextRef p + metricsSize,
                   registry := registry p @ map histogramDesc (collectors (buildMetrics (nextRef p))),
                   createOnce := True,
                   instance_var := Some (buildMetrics (nextRef p))\<rparr>)"
    by (simp add: Get_def newMetrics_fresh)
next
  show "distinct (map (descID \<circ> histogramDesc) (collectors (buildMetrics (nextRef p))))"
    by (rule collectors_distinct_ids)
next
  show "length (collectors (buildMetrics (nextRef p))) = 24"
    by (simp add: collectors_buildMetrics_length metricsSize_def dbTypes_def)
qed

theorem Get_singleton_witness:
  "\<not> createOnce processStart \<and> registry processStart = []
   \<and> fst (Get processStart) = Inr (Some (buildMetrics 0))
   \<and> length (registry (snd (Get processStart))) = 24
   \<and> GetTimes 3 (snd (Get processStart))
       = (replicate 3 (Inr (Some (buildMetrics 0))), snd (Get processStart))"
proof -
  have start: "\<not> createOnce processStart
               \<and> (\<forall>d \<in> set (registry processStart). take 4 (d_fqName d) \<noteq> ''kms_'')"
    by (simp add: processStart_def)
  note all = Get_singleton [of 3 processStart]
  from all start
  have first: "Get processStart =
      (Inr (Some (buildMetrics (nextRef processStart))),
       processStart\<lparr>nextRef := nextRef processStart + metricsSize,
         registry := registry processStart
                     @ map histogramDesc (collectors (buildMetrics (nextRef processStart))),
         createOnce := True,
         instance_var := Some (buildMetrics (nextRef processStart))\<rparr>)"
    and len: "length (collectors (buildMetrics (nextRef processStart))) = 24"
    by blast+
  from all have again: "GetTimes 3 (snd (Get processStart))
      = (replicate 3 (Inr (instance_var (snd (Get processStart)))), snd (Get processStart))"
    by blast
  have zero: "nextRef processStart = 0" "registry processStart = []"
    by (simp_all add: processStart_def)
  from first zero have r: "fst (Get processStart) = Inr (Some (buildMetrics 0))"
    by simp
  from first zero have i: "instance_var (snd (Get processStart)) = Some (buildMetrics 0)"
    by simp
  from first zero len have l: "length (registry (snd (Get processStart))) = 24"
    by simp
  from start zero r l again i show ?thesis by simp
qed

section \<open>Properties of delegation and of the invocation header\<close>

lemma NewCapability_fields:
  assumes "NewCapability e sg [WithInvoker i, WithParent p, WithInvocationTarget ti tt,
             WithAllowedActions acts, WithCapabilityChain chain] = Inr d"
  shows "Invoker d = i" and "Parent d = p"
    and "InvocationTarget d = \<lparr>target_ID = ti, target_Type = tt\<rparr>"
    and "AllowedAction d = acts" and "capabilityChain d = chain"
    and "ID d = ''urn:uuid:'' @ newUUID e"
  using assms
  by (auto simp add: NewCapability_def Let_def noOptions_def capabilityChain_def proofChain_def
      split: sum.splits)

lemma delegatedCapability_Inr:
  assumes "delegatedCapability e (Some c) s vm invoker = Inr d"
  shows "\<exists>p ps. Proof c = p # ps \<and>
           NewCapability e
              \<lparr>SignatureSuite = s, SuiteType = ed25519SignatureType, VerificationMethod = vm\<rparr>
              [WithInvoker invoker, WithParent (ID c),
               WithInvocationTarget (target_ID (InvocationTarget c))
                                    (target_Type (InvocationTarget c)),
               WithAllowedActions [actionExportKey],
               WithCapabilityChain (proofChain p @ [JString (ID c)])] = Inr d"
  using assms
  by (auto simp add: delegatedCapability_def delegationChain_def
      split: list.splits sum.splits)

lemma delegatedCapability_facts:
  assumes "delegatedCapability e (Some c) s vm invoker = Inr d"
  shows "Invoker d = invoker" and "Parent d = ID c"
    and "InvocationTarget d = InvocationTarget c"
    and "AllowedAction d = [actionExportKey]"
    and "capabilityChain d = capabilityChain c @ [JString (ID c)]"
proof -
  from delegatedCapability_Inr [OF assms] obtain p ps where
    pr: "Proof c = p # ps" and
    nc: "NewCapability e
              \<lparr>SignatureSuite = s, SuiteType = ed25519SignatureType, VerificationMethod = vm\<rparr>
              [WithInvoker invoker, WithParent (ID c),
               WithInvocationTarget (target_ID (InvocationTarget c))
                                    (target_Type (InvocationTarget c)),
               WithAllowedActions [actionExportKey],
               WithCapabilityChain (proofChain p @ [JString (ID c)])] = Inr d"
    by blast
  show "Invoker d = invoker" by (rule NewCapability_fields(1) [OF nc])
  show "Parent d = ID c" by (rule NewCapability_fields(2) [OF nc])
  show "InvocationTarget d = InvocationTarget c"
    using NewCapability_fields(3) [OF nc] by simp
  show "AllowedAction d = [actionExportKey]" by (rule NewCapability_fields(4) [OF nc])
  show "capabilityChain d = capabilityChain c @ [JString (ID c)]"
    using NewCapability_fields(5) [OF nc] pr by (simp add: capabilityChain_def)
qed

lemma delegatedCapability_ignores_actions:
  "delegatedCapability e (Some (c\<lparr>AllowedAction := acts\<rparr>)) s vm invoker
     = delegatedCapability e (Some c) s vm invoker"
  by (cases "Proof c"; cases "createJSONLDDocumentLoader e")
     (simp_all add: delegatedCapability_def delegationChain_def)

lemma Sprintf_capabilityHeaderFormat:
  "Sprintf capabilityHeaderFormat [x, y]
     = ''zcap capability='' @ [CHR 0x22] @ x @ [CHR 0x22]
       @ '',action='' @ [CHR 0x22] @ y @ [CHR 0x22]"
  by (simp add: capabilityHeaderFormat_def)

lemma setCapabilityHeader_header:
  "map_of (Header (fst (setCapabilityHeader e req capability ctrl))) CapabilityInvocationHTTPHeader
     = Some [Sprintf capabilityHeaderFormat [capability, actionExportKey]]"
  by (simp add: setCapabilityHeader_def Let_def Header_Set_def update_conv'
      CapabilityInvocationHTTPHeader_def signatureHeader_def split: sum.splits)


subsection \<open>Evaluations at the example inputs\<close>

text \<open>The capability that the holder of the vault capability delegates to another principal.\<close>

lemma example_vault_delegation:
  "delegatedCapability exampleEnv (Some vaultCapability) ''alice-key'' ''did:key:alice'' ''did:key:bob''
   = Inr \<lparr>ID = ''urn:uuid:6f1c0d6e-0001'', Invoker = ''did:key:bob'',
        Parent = ''urn:uuid:vault-zcap'', AllowedAction = [''export-key''],
        InvocationTarget = \<lparr>target_ID = ''vault-1'', target_Type = ''urn:edv:vault''\<rparr>,
        Proof =
          [[(''type'', JString ''Ed25519Signature2018''),
            (''created'', JString ''2020-11-25T12:37:49Z''),
            (''verificationMethod'', JString ''did:key:alice''),
            (''proofPurpose'', JString ''capabilityDelegation''),
            (''capabilityChain'', JArray [JString ''urn:uuid:root'', JString ''urn:uuid:vault-zcap'']),
            (''signatureValue'', JString ''c2lnbmVk'')]]\<rparr>"
  by code_simp

text \<open>
  Claim C1, as stated, fails. The vault capability allows \<open>read\<close> and \<open>write\<close>; delegating
  it succeeds, and the delegated capability allows \<open>export-key\<close>, which the parent does
  not: no subset check is made and no error is returned.
\<close>

theorem delegation_widens_actions:
  "delegateCapability exampleEnv (Some vaultCapability) ''alice-key'' ''did:key:alice'' ''did:key:bob''
     = Inr [0x1f, 0x8b, 0x08, 0x00]
   \<and> map_sum id AllowedAction
        (delegatedCapability exampleEnv (Some vaultCapability) ''alice-key'' ''did:key:alice''
           ''did:key:bob'') = Inr [''export-key'']
   \<and> AllowedAction vaultCapability = [''read'', ''write'']
   \<and> \<not> set [''export-key''] \<subseteq> set [''read'', ''write'']"
  by code_simp


text \<open>
  Claim C1, amended. \<open>delegateCapability\<close> takes no action set and makes no subset
  check: its outcome is the same whatever the parent's allowed actions are, every
  delegated capability allows exactly \<open>actionExportKey\<close>, and so the delegated actions
  are a subset of the parent's exactly when the parent allows \<open>export-key\<close>.
\<close>

theorem delegation_ignores_parent_actions:
  "delegatedCapability e (Some (c\<lparr>AllowedAction := acts\<rparr>)) s vm invoker
     = delegatedCapability e (Some c) s vm invoker
   \<and> (\<forall>d. delegatedCapability e (Some c) s vm invoker = Inr d \<longrightarrow>
          AllowedAction d = [actionExportKey]
          \<and> (set (AllowedAction d) \<subseteq> set (AllowedAction c)
               \<longleftrightarrow> actionExportKey \<in> set (AllowedAction c)))"
proof (intro conjI allI impI)
  show "delegatedCapability e (Some (c\<lparr>AllowedAction := acts\<rparr>)) s vm invoker
          = delegatedCapability e (Some c) s vm invoker"
    by (rule delegatedCapability_ignores_actions)
next
  fix d assume ok: "delegatedCapability e (Some c) s vm invoker = Inr d"
  then show "AllowedAction d = [actionExportKey]"
    by (rule delegatedCapability_facts(4))
  then show "set (AllowedAction d) \<subseteq> set (AllowedAction c)
               \<longleftrightarrow> actionExportKey \<in> set (AllowedAction c)"
    by simp
qed

theorem delegation_ignores_parent_actions_witness:
  "delegatedCapability exampleEnv (Some (keystoreCapability\<lparr>AllowedAction := [''sign'']\<rparr>))
       ''alice-key'' ''did:key:alice'' ''did:key:bob''
     = delegatedCapability exampleEnv (Some keystoreCapability)
         ''alice-key'' ''did:key:alice'' ''did:key:bob''
   \<and> \<not> isl (delegatedCapability exampleEnv (Some keystoreCapability)
              ''alice-key'' ''did:key:alice'' ''did:key:bob'')
   \<and> AllowedAction (projr (delegatedCapability exampleEnv (Some keystoreCapability)
              ''alice-key'' ''did:key:alice'' ''did:key:bob'')) = [''export-key'']
   \<and> set (AllowedAction (projr (delegatedCapability exampleEnv (Some keystoreCapability)
              ''alice-key'' ''did:key:alice'' ''did:key:bob'')))
       \<subseteq> set (AllowedAction keystoreCapability)"
proof -
  let ?r = "delegatedCapability exampleEnv (Some keystoreCapability)
              ''alice-key'' ''did:key:alice'' ''did:key:bob''"
  have ok: "?r = Inr (projr ?r)" by code_simp
  have mem: "actionExportKey \<in> set (AllowedAction keystoreCapability)" by code_simp
  note t = delegation_ignores_parent_actions
             [where e = exampleEnv and c = keystoreCapability and acts = "[''sign'']"
                and s = "''alice-key''" and vm = "''did:key:alice''"
                and invoker = "''did:key:bob''"]
  from t have a: "delegatedCapability exampleEnv
       (Some (keystoreCapability\<lparr>AllowedAction := [''sign'']\<rparr>))
       ''alice-key'' ''did:key:alice'' ''did:key:bob'' = ?r"
    by blast
  from t ok have b: "AllowedAction (projr ?r) = [actionExportKey]" by blast
  from t ok mem have c: "set (AllowedAction (projr ?r)) \<subseteq> set (AllowedAction keystoreCapability)"
    by blast
  from ok have d: "\<not> isl ?r" by (metis sum.disc(2))
  from a b c d show ?thesis by (simp add: actionExportKey_def)
qed

text \<open>
  Claim C2, as stated, fails. Delegating a capability whose recorded chain already names
  it succeeds and yields a chain that names it twice.
\<close>

theorem delegation_repeats_identifier:
  "capabilityChain cyclicCapability = [JString ''urn:uuid:root'', JString ''urn:uuid:loop'']
   \<and> map_sum id capabilityChain
        (delegatedCapability exampleEnv (Some cyclicCapability)
           ''alice-key'' ''did:key:alice'' ''did:key:bob'')
       = Inr [JString ''urn:uuid:root'', JString ''urn:uuid:loop'', JString ''urn:uuid:loop'']
   \<and> \<not> distinct [JString ''urn:uuid:root'', JString ''urn:uuid:loop'', JString ''urn:uuid:loop'']"
  by code_simp

text \<open>
  Claim C2, amended. For every capability that \<open>delegateCapability\<close> mints, the chain is
  the chain recorded in the parent's first proof followed by the parent's identifier, so
  it is longer by exactly one; no check for repetitions is made, and the chain is free of
  them exactly when the parent's chain is and does not hold the parent's identifier
  already.
\<close>

theorem delegation_chain_growth:
  assumes "delegatedCapability e (Some c) s vm invoker = Inr d"
  shows "capabilityChain d = capabilityChain c @ [JString (ID c)]
       \<and> length (capabilityChain d) = Suc (length (capabilityChain c))
       \<and> (distinct (capabilityChain d)
            \<longleftrightarrow> distinct (capabilityChain c) \<and> JString (ID c) \<notin> set (capabilityChain c))"
proof -
  from assms have ch: "capabilityChain d = capabilityChain c @ [JString (ID c)]"
    by (rule delegatedCapability_facts(5))
  then show ?thesis by simp
qed

theorem delegation_chain_growth_witness:
  "\<not> isl (delegatedCapability exampleEnv (Some vaultCapability)
              ''alice-key'' ''did:key:alice'' ''did:key:bob'')
   \<and> capabilityChain (projr (delegatedCapability exampleEnv (Some vaultCapability)
              ''alice-key'' ''did:key:alice'' ''did:key:bob''))
       = [JString ''urn:uuid:root'', JString ''urn:uuid:vault-zcap'']
   \<and> distinct (capabilityChain (projr (delegatedCapability exampleEnv (Some vaultCapability)
              ''alice-key'' ''did:key:alice'' ''did:key:bob'')))"
proof -
  let ?r = "delegatedCapability exampleEnv (Some vaultCapability)
              ''alice-key'' ''did:key:alice'' ''did:key:bob''"
  have ok: "?r = Inr (projr ?r)" by code_simp
  have ch: "capabilityChain vaultCapability = [JString ''urn:uuid:root'']" by code_simp
  have idv: "ID vaultCapability = ''urn:uuid:vault-zcap''" by code_simp
  note t = delegation_chain_growth [OF ok]
  from t have a: "capabilityChain (projr ?r)
                    = capabilityChain vaultCapability @ [JString (ID vaultCapability)]"
    by (rule conjunct1)
  from t have "distinct (capabilityChain (projr ?r))
                 \<longleftrightarrow> distinct (capabilityChain vaultCapability)
                      \<and> JString (ID vaultCapability) \<notin> set (capabilityChain vaultCapability)"
    by blast
  then have b: "distinct (capabilityChain (projr ?r))" by (simp add: ch idv)
  from ok have d: "\<not> isl ?r" by (metis sum.disc(2))
  from a b d show ?thesis by (simp add: ch idv)
qed

text \<open>
  \<open>delegateCapability\<close> gives the delegated capability the invocation target of its
  parent, resource identifier and resource type alike.
\<close>

lemma delegateCapability_keeps_target:
  assumes "delegatedCapability e (Some c) s vm invoker = Inr d"
  shows "InvocationTarget d = InvocationTarget c"
  using assms by (rule delegatedCapability_facts(3))

text \<open>
  Claim C4 fails on \<open>createChainCapability\<close>. It takes the target of the capability it
  delegates from the user's vault identifier and \<open>edvResource\<close>, not from the parent as
  \<open>delegateCapability\<close> does: for a user whose vault identifier is \<open>vault-2\<close> and whose
  capability is for \<open>vault-1\<close>, the delegated capability is for \<open>vault-2\<close>.
\<close>

theorem createChainCapability_retargets:
  "map_option InvocationTarget (u_edvCapability carol)
     = Some \<lparr>target_ID = ''vault-1'', target_Type = ''urn:edv:vault''\<rparr>
   \<and> map_sum id InvocationTarget (createChainCapability exampleEnv ''urn:edv:vault'' carol)
       = Inr \<lparr>target_ID = ''vault-2'', target_Type = ''urn:edv:vault''\<rparr>
   \<and> map_sum id Parent (createChainCapability exampleEnv ''urn:edv:vault'' carol)
       = Inr ''urn:uuid:vault-zcap''"
  by code_simp

text \<open>
  Claim C5, as stated, fails. The chain of this parent already holds the parent's own
  identifier, and \<open>delegateCapability\<close> returns the compressed capability, not an error.
\<close>

theorem delegation_accepts_cyclic_parent:
  "JString (ID cyclicCapability) \<in> set (capabilityChain cyclicCapability)
   \<and> delegateCapability exampleEnv (Some cyclicCapability)
        ''alice-key'' ''did:key:alice'' ''did:key:bob'' = Inr [0x1f, 0x8b, 0x08, 0x00]"
  by code_simp

lemma delegatedCapability_call:
  assumes "Proof c = p # ps" and "createJSONLDDocumentLoader e = Inr ()"
  shows "delegatedCapability e (Some c) s vm invoker =
           (case delegationCall e c s vm invoker p of
              Inl err \<Rightarrow> Inl (wrap ''failed to delegate zcap unto user: '' err)
            | Inr d \<Rightarrow> Inr d)"
  using assms by (simp add: delegatedCapability_def delegationChain_def)

lemma delegateCapability_failure:
  assumes "delegateCapability e (Some c) s vm invoker = Inl err"
  shows "(Proof c = [] \<and> err = Panic ''index out of range [0] with length 0'')
       \<or> (\<exists>x. createJSONLDDocumentLoader e = Inl x \<and> err = wrap ''create document loader: '' x)
       \<or> (\<exists>p ps x. Proof c = p # ps \<and> delegationCall e c s vm invoker p = Inl x
                   \<and> err = wrap ''failed to delegate zcap unto user: '' x)
       \<or> (\<exists>d m. delegatedCapability e (Some c) s vm invoker = Inr d \<and> CompressZCAP e d = Inl m
                 \<and> err = Error (''failed to compress zcap: '' @ m))"
proof (cases "delegatedCapability e (Some c) s vm invoker")
  case (Inr d)
  with assms show ?thesis
    by (auto simp add: delegateCapability_def split: sum.splits)
next
  case (Inl x)
  with assms have err: "err = x" by (simp add: delegateCapability_def)
  show ?thesis
  proof (cases "Proof c")
    case Nil
    with Inl err show ?thesis by (simp add: delegatedCapability_def delegationChain_def)
  next
    case (Cons p ps)
    show ?thesis
    proof (cases "createJSONLDDocumentLoader e")
      case (Inl y)
      with \<open>delegatedCapability e (Some c) s vm invoker = Inl x\<close> Cons err show ?thesis
        by (simp add: delegatedCapability_def delegationChain_def)
    next
      case (Inr u)
      then have "createJSONLDDocumentLoader e = Inr ()" by simp
      from delegatedCapability_call [OF Cons this, of s vm invoker]
        \<open>delegatedCapability e (Some c) s vm invoker = Inl x\<close> Cons err
      show ?thesis by (auto split: sum.splits)
    qed
  qed
qed

text \<open>
  Claim C5, amended. \<open>delegateCapability\<close> makes no cycle check. For a parent with at
  least one proof it returns the compressed delegated capability whenever the document
  loader is built, \<open>NewCapability\<close> succeeds on the options of this call and
  \<open>CompressZCAP\<close> succeeds on the capability it returned, whatever the parent's chain
  holds; when that chain already holds the parent's identifier, the delegated chain
  repeats it. It fails only by a panic on a \<open>nil\<close> parent or an empty proof list, or with
  the failure of the loader, of \<open>NewCapability\<close> on this call or of \<open>CompressZCAP\<close> on the
  delegated capability.
\<close>

theorem delegation_has_no_cycle_check:
  "(\<forall>p ps d bs.
       Proof c = p # ps \<and> createJSONLDDocumentLoader e = Inr ()
       \<and> delegationCall e c s vm invoker p = Inr d \<and> CompressZCAP e d = Inr bs \<longrightarrow>
         delegatedCapability e (Some c) s vm invoker = Inr d
       \<and> delegateCapability e (Some c) s vm invoker = Inr bs
       \<and> (JString (ID c) \<in> set (capabilityChain c) \<longrightarrow> \<not> distinct (capabilityChain d)))
   \<and> (\<forall>err. delegateCapability e (Some c) s vm invoker = Inl err \<longrightarrow>
         (Proof c = [] \<and> err = Panic ''index out of range [0] with length 0'')
       \<or> (\<exists>x. createJSONLDDocumentLoader e = Inl x \<and> err = wrap ''create document loader: '' x)
       \<or> (\<exists>p ps x. Proof c = p # ps \<and> delegationCall e c s vm invoker p = Inl x
                   \<and> err = wrap ''failed to delegate zcap unto user: '' x)
       \<or> (\<exists>d m. delegatedCapability e (Some c) s vm invoker = Inr d \<and> CompressZCAP e d = Inl m
                 \<and> err = Error (''failed to compress zcap: '' @ m)))
   \<and> delegateCapability e None s vm invoker = Inl nilDereference"
proof (intro conjI allI impI)
  fix p ps d bs
  assume a: "Proof c = p # ps \<and> createJSONLDDocumentLoader e = Inr ()
       \<and> delegationCall e c s vm invoker p = Inr d \<and> CompressZCAP e d = Inr bs"
  then have d: "delegatedCapability e (Some c) s vm invoker = Inr d"
    using delegatedCapability_call [of c p ps e s vm invoker] by simp
  show "delegatedCapability e (Some c) s vm invoker = Inr d" by (rule d)
  from d a show "delegateCapability e (Some c) s vm invoker = Inr bs"
    by (simp add: delegateCapability_def)
  assume "JString (ID c) \<in> set (capabilityChain c)"
  with delegatedCapability_facts(5) [OF d] show "\<not> distinct (capabilityChain d)" by simp
next
  fix err assume "delegateCapability e (Some c) s vm invoker = Inl err"
  then show "(Proof c = [] \<and> err = Panic ''index out of range [0] with length 0'')
       \<or> (\<exists>x. createJSONLDDocumentLoader e = Inl x \<and> err = wrap ''create document loader: '' x)
       \<or> (\<exists>p ps x. Proof c = p # ps \<and> delegationCall e c s vm invoker p = Inl x
                   \<and> err = wrap ''failed to delegate zcap unto user: '' x)
       \<or> (\<exists>d m. delegatedCapability e (Some c) s vm invoker = Inr d \<and> CompressZCAP e d = Inl m
                 \<and> err = Error (''failed to compress zcap: '' @ m))"
    by (rule delegateCapability_failure)
next
  show "delegateCapability e None s vm invoker = Inl nilDereference"
    by (simp add: delegateCapability_def delegatedCapability_def)
qed

theorem delegation_has_no_cycle_check_witness:
  "createJSONLDDocumentLoader exampleEnv = Inr ()
   \<and> JString (ID cyclicCapability) \<in> set (capabilityChain cyclicCapability)
   \<and> \<not> isl (delegateCapability exampleEnv (Some cyclicCapability)
               ''alice-key'' ''did:key:alice'' ''did:key:bob'')
   \<and> \<not> distinct (capabilityChain (projr (delegatedCapability exampleEnv (Some cyclicCapability)
               ''alice-key'' ''did:key:alice'' ''did:key:bob'')))
   \<and> Proof (cyclicCapability\<lparr>Proof := []\<rparr>) = []
   \<and> isl (delegateCapability exampleEnv (Some (cyclicCapability\<lparr>Proof := []\<rparr>))
               ''alice-key'' ''did:key:alice'' ''did:key:bob'')"
proof -
  let ?p = "[(''capabilityChain'', JArray [JString ''urn:uuid:root'', JString ''urn:uuid:loop''])]"
  let ?call = "delegationCall exampleEnv cyclicCapability ''alice-key'' ''did:key:alice''
                 ''did:key:bob'' ?p"
  have p: "Proof cyclicCapability = ?p # []" by code_simp
  have l: "createJSONLDDocumentLoader exampleEnv = Inr ()" by code_simp
  have nc: "?call = Inr (projr ?call)" by code_simp
  have cz: "CompressZCAP exampleEnv (projr ?call) = Inr [0x1f, 0x8b, 0x08, 0x00]"
    by (simp add: exampleEnv_def)
  have cyc: "JString (ID cyclicCapability) \<in> set (capabilityChain cyclicCapability)"
    by code_simp
  note t = delegation_has_no_cycle_check
             [where e = exampleEnv and c = cyclicCapability and s = "''alice-key''"
                and vm = "''did:key:alice''" and invoker = "''did:key:bob''"]
  from t p l nc cz
  have d: "delegatedCapability exampleEnv (Some cyclicCapability)
             ''alice-key'' ''did:key:alice'' ''did:key:bob'' = Inr (projr ?call)"
    and bs: "delegateCapability exampleEnv (Some cyclicCapability)
             ''alice-key'' ''did:key:alice'' ''did:key:bob'' = Inr [0x1f, 0x8b, 0x08, 0x00]"
    and nd: "JString (ID cyclicCapability) \<in> set (capabilityChain cyclicCapability)
             \<longrightarrow> \<not> distinct (capabilityChain (projr ?call))"
    by blast+
  from bs have a: "\<not> isl (delegateCapability exampleEnv (Some cyclicCapability)
               ''alice-key'' ''did:key:alice'' ''did:key:bob'')"
    by simp
  from d nd cyc have b: "\<not> distinct (capabilityChain (projr (delegatedCapability exampleEnv
               (Some cyclicCapability) ''alice-key'' ''did:key:alice'' ''did:key:bob'')))"
    by simp
  have e: "Proof (cyclicCapability\<lparr>Proof := []\<rparr>) = []" by simp
  have f: "isl (delegateCapability exampleEnv (Some (cyclicCapability\<lparr>Proof := []\<rparr>))
               ''alice-key'' ''did:key:alice'' ''did:key:bob'')"
    by code_simp
  from l cyc a b e f show ?thesis by blast
qed

subsection \<open>The base64 encoding can be decoded\<close>

lemma mask_63: "(63::nat) = mask 6"
  by (simp add: mask_eq_exp_minus_1)

lemma and_63_less: "(x::nat) AND 63 < 64"
  using take_bit_nat_less_exp [of 6 x] by (simp add: mask_63 take_bit_eq_mask)

lemma byte_high_bits: "bit (w :: 8 word) (8 + n) = False" "bit (w :: 8 word) (16 + n) = False"
  by (auto dest: bit_imp_le_length)

lemma Suc_diff_back:
  "2 \<le> n \<Longrightarrow> Suc (Suc (n - 2)) = n"
  "4 \<le> n \<Longrightarrow> Suc (Suc (Suc (Suc (n - 4)))) = n"
  "6 \<le> n \<Longrightarrow> Suc (Suc (Suc (Suc (Suc (Suc (n - 6)))))) = n"
  by simp_all

lemma decodeQuantum_three:
  fixes a b c :: "8 word"
  defines "val \<equiv> push_bit 16 (unat a) OR push_bit 8 (unat b) OR unat c"
  shows "decodeQuantum (drop_bit 18 val AND 63) (drop_bit 12 val AND 63)
           (drop_bit 6 val AND 63) (val AND 63) = [a, b, c]"
  unfolding decodeQuantum_def Let_def val_def mask_63
  apply simp
  apply (intro conjI bit_word_eqI)
    apply (auto simp add: bit_simps byte_high_bits Suc_diff_back)
  done

lemma decodeQuantum_two:
  fixes a b :: "8 word"
  defines "val \<equiv> push_bit 16 (unat a) OR push_bit 8 (unat b)"
  shows "take 2 (decodeQuantum (drop_bit 18 val AND 63) (drop_bit 12 val AND 63)
           (drop_bit 6 val AND 63) 0) = [a, b]"
  unfolding decodeQuantum_def Let_def val_def mask_63
  apply simp
  apply (intro conjI bit_word_eqI)
   apply (auto simp add: bit_simps byte_high_bits Suc_diff_back)
  done

lemma decodeQuantum_one:
  fixes a :: "8 word"
  defines "val \<equiv> push_bit 16 (unat a)"
  shows "take 1 (decodeQuantum (drop_bit 18 val AND 63) (drop_bit 12 val AND 63) 0 0) = [a]"
  unfolding decodeQuantum_def Let_def val_def mask_63
  apply simp
  apply (intro bit_word_eqI)
  apply (auto simp add: bit_simps byte_high_bits Suc_diff_back)
  done

lemma indexOf_nth:
  "distinct xs \<Longrightarrow> i < length xs \<Longrightarrow> indexOf (xs ! i) xs = Some i"
proof (induction xs arbitrary: i)
  case Nil
  then show ?case by simp
next
  case (Cons x xs)
  show ?case
  proof (cases i)
    case 0
    then show ?thesis by simp
  next
    case (Suc j)
    with Cons.prems have "xs ! j \<noteq> x" by auto
    with Suc Cons show ?thesis by simp
  qed
qed

lemma encodeURL_alphabet:
  "distinct encodeURL" "length encodeURL = 64" "CHR ''='' \<notin> set encodeURL"
  by (simp_all add: encodeURL_def)

lemma indexOf_encodeURL: "i < 64 \<Longrightarrow> indexOf (encodeURL ! i) encodeURL = Some i"
  by (simp add: indexOf_nth encodeURL_alphabet)

lemma encodeURL_not_padding: "i < 64 \<Longrightarrow> encodeURL ! i \<noteq> CHR ''=''"
  using encodeURL_alphabet(2,3) nth_mem [of i encodeURL] by metis

text \<open>
  Decoding what \<open>EncodeToString\<close> produced gives the bytes back: the encoding loses
  nothing, and in particular is different for different inputs.
\<close>

lemma DecodeString_quantum:
  assumes "i0 < 64" "i1 < 64" "i2 < 64" "i3 < 64"
  shows "DecodeString (encodeURL ! i0 # encodeURL ! i1 # encodeURL ! i2 # encodeURL ! i3 # rest)
           = map_option (\<lambda>bs. decodeQuantum i0 i1 i2 i3 @ bs) (DecodeString rest)"
  using assms by (simp add: indexOf_encodeURL encodeURL_not_padding)

lemma DecodeString_padded_one:
  assumes "i0 < 64" "i1 < 64" "i2 < 64"
  shows "DecodeString [encodeURL ! i0, encodeURL ! i1, encodeURL ! i2, CHR ''='']
           = Some (take 2 (decodeQuantum i0 i1 i2 0))"
  using assms by (simp add: indexOf_encodeURL encodeURL_not_padding)

lemma DecodeString_padded_two:
  assumes "i0 < 64" "i1 < 64"
  shows "DecodeString [encodeURL ! i0, encodeURL ! i1, CHR ''='', CHR ''='']
           = Some (take 1 (decodeQuantum i0 i1 0 0))"
  using assms by (simp add: indexOf_encodeURL)

lemma DecodeString_EncodeToString: "DecodeString (EncodeToString bs) = Some bs"
proof (induction bs rule: EncodeToString.induct)
  case (1 a b c rest)
  define v where "v = push_bit 16 (unat a) OR push_bit 8 (unat b) OR unat c"
  have enc: "EncodeToString (a # b # c # rest)
               = encodeURL ! (drop_bit 18 v AND 63) # encodeURL ! (drop_bit 12 v AND 63)
                 # encodeURL ! (drop_bit 6 v AND 63) # encodeURL ! (v AND 63)
                 # EncodeToString rest"
    unfolding v_def EncodeToString.simps Let_def by (simp only: append_Cons append_Nil)
  have q: "decodeQuantum (drop_bit 18 v AND 63) (drop_bit 12 v AND 63)
             (drop_bit 6 v AND 63) (v AND 63) = [a, b, c]"
    unfolding v_def by (rule decodeQuantum_three)
  show ?case
    unfolding enc
    by (simp only: DecodeString_quantum [OF and_63_less and_63_less and_63_less and_63_less]
        "1.IH" q option.map append_Cons append_Nil)
next
  case (2 a b)
  define v where "v = push_bit 16 (unat a) OR push_bit 8 (unat b)"
  have enc: "EncodeToString [a, b]
               = [encodeURL ! (drop_bit 18 v AND 63), encodeURL ! (drop_bit 12 v AND 63),
                  encodeURL ! (drop_bit 6 v AND 63), CHR ''='']"
    unfolding v_def EncodeToString.simps Let_def by (rule refl)
  have q: "take 2 (decodeQuantum (drop_bit 18 v AND 63) (drop_bit 12 v AND 63)
             (drop_bit 6 v AND 63) 0) = [a, b]"
    unfolding v_def by (rule decodeQuantum_two)
  show ?case
    unfolding enc
    by (simp only: DecodeString_padded_one [OF and_63_less and_63_less and_63_less] q)
next
  case (3 a)
  define v where "v = push_bit 16 (unat a)"
  have enc: "EncodeToString [a]
               = [encodeURL ! (drop_bit 18 v AND 63), encodeURL ! (drop_bit 12 v AND 63),
                  CHR ''='', CHR ''='']"
    unfolding v_def EncodeToString.simps Let_def by (rule refl)
  have q: "take 1 (decodeQuantum (drop_bit 18 v AND 63) (drop_bit 12 v AND 63) 0 0) = [a]"
    unfolding v_def by (rule decodeQuantum_one)
  show ?case
    unfolding enc
    by (simp only: DecodeString_padded_two [OF and_63_less and_63_less] q)
next
  case 4
  then show ?case by simp
qed

text \<open>The test vectors of RFC 4648 (\<open>f\<close>, \<open>fo\<close>, \<open>foo\<close>, \<open>foob\<close>) and bytes that need the URL-safe characters.\<close>

lemma EncodeToString_vectors:
  "EncodeToString [] = []"
  "EncodeToString [0x66] = ''Zg==''"
  "EncodeToString [0x66, 0x6f] = ''Zm8=''"
  "EncodeToString [0x66, 0x6f, 0x6f] = ''Zm9v''"
  "EncodeToString [0x66, 0x6f, 0x6f, 0x62] = ''Zm9vYg==''"
  "EncodeToString [0xfb, 0xff, 0xfe] = ''-__-''"
  by (simp_all add: encodeURL_def Let_def)

subsection \<open>The header of a signed invocation\<close>

lemma signedRequest_Inr:
  assumes "signedRequest e u b prepared = Inr req"
  shows "\<exists>c compressed.
           u_kmsCapability u = Some c \<and> builderAction b \<in> set (AllowedAction c)
         \<and> CompressZCAP e c = Inr compressed
         \<and> map_of (Header req) CapabilityInvocationHTTPHeader
             = Some [Sprintf capabilityHeaderFormat [EncodeToString compressed, builderAction b]]"
  using assms
  by (auto simp add: signedRequest_def SetCapabilityInvocation_def Sign_def Header_Set_def
      update_conv' CapabilityInvocationHTTPHeader_def signatureHeader_def
      split: sum.splits option.splits if_splits)

lemma getPubKeyOfRecipientReq_Inr:
  assumes "getPubKeyOfRecipientReq e users userName recipientName = Inr req"
  shows "\<exists>recipient u r0 compressed.
           map_of users recipientName = Some recipient
         \<and> map_of users userName = Some u
         \<and> delegateCapability e (u_kmsCapability recipient) (u_signer recipient)
              (u_controller recipient) (u_controller u) = Inr compressed
         \<and> setCapabilityHeader e r0 (EncodeToString compressed) (u_controller u) = (req, None)"
  using assms
  by (auto simp add: getPubKeyOfRecipientReq_def
      split: option.splits sum.splits prod.splits)

text \<open>
  Claim C6. On every request that carries a signed invocation, the capability-invocation
  header has the single value \<^verbatim>\<open>zcap capability="B",action="A"\<close>. For each of the
  twelve functions that set the header through \<open>SetCapabilityInvocation\<close> and sign the
  request, \<open>A\<close> is the action of that function, as listed, and \<open>B\<close> encodes the
  compressed capability of the user; for the request \<open>getPubKeyOfRecipient\<close> sends, \<open>A\<close> is
  \<open>export-key\<close> and \<open>B\<close> encodes the compressed capability that the recipient delegated
  to the user. In both cases \<open>B\<close> is the URL-safe base64 encoding of those bytes: decoding
  it gives them back.
\<close>

theorem invocation_header_shape:
  "(\<forall>req. signedRequest e u b prepared = Inr req \<longrightarrow>
      (\<exists>c compressed.
           u_kmsCapability u = Some c \<and> CompressZCAP e c = Inr compressed
         \<and> map_of (Header req) CapabilityInvocationHTTPHeader
             = Some [''zcap capability='' @ [CHR 0x22] @ EncodeToString compressed @ [CHR 0x22]
                     @ '',action='' @ [CHR 0x22] @ builderAction b @ [CHR 0x22]]
         \<and> DecodeString (EncodeToString compressed) = Some compressed))
   \<and> (builderAction BuildCreateKeyReq = ''create-key''
      \<and> builderAction MakeExportPubKeyReq = ''export-key''
      \<and> builderAction MakeCreateAndExportKeyReq = ''create-key''
      \<and> builderAction MakeImportKeyReq = ''import-key''
      \<and> builderAction MakeRotateKeyReq = ''rotate-key''
      \<and> builderAction MakeSignMessageReq = ''sign''
      \<and> builderAction MakeEncryptMessageReq = ''encrypt''
      \<and> builderAction MakeDecryptCipherReq = ''decrypt''
      \<and> builderAction MakeComputeMACReq = ''compute-mac''
      \<and> builderAction MakeWrapKeyReq = ''wrap''
      \<and> builderAction MakeUnwrapKeyReq = ''unwrap''
      \<and> (\<forall>action. builderAction (MakeVerifyReq action) = action))
   \<and> (\<forall>req. getPubKeyOfRecipientReq e users userName recipientName = Inr req \<longrightarrow>
      (\<exists>recipient u' compressed.
           map_of users recipientName = Some recipient
         \<and> map_of users userName = Some u'
         \<and> delegateCapability e (u_kmsCapability recipient) (u_signer recipient)
              (u_controller recipient) (u_controller u') = Inr compressed
         \<and> map_of (Header req) CapabilityInvocationHTTPHeader
             = Some [''zcap capability='' @ [CHR 0x22] @ EncodeToString compressed @ [CHR 0x22]
                     @ '',action='' @ [CHR 0x22] @ ''export-key'' @ [CHR 0x22]]
         \<and> DecodeString (EncodeToString compressed) = Some compressed))"
proof -
  have first: "\<forall>req. signedRequest e u b prepared = Inr req \<longrightarrow>
      (\<exists>c compressed.
           u_kmsCapability u = Some c \<and> CompressZCAP e c = Inr compressed
         \<and> map_of (Header req) CapabilityInvocationHTTPHeader
             = Some [''zcap capability='' @ [CHR 0x22] @ EncodeToString compressed @ [CHR 0x22]
                     @ '',action='' @ [CHR 0x22] @ builderAction b @ [CHR 0x22]]
         \<and> DecodeString (EncodeToString compressed) = Some compressed)"
  proof (intro allI impI)
    fix req assume "signedRequest e u b prepared = Inr req"
    from signedRequest_Inr [OF this] obtain c compressed where
      a: "u_kmsCapability u = Some c" "CompressZCAP e c = Inr compressed"
      and h: "map_of (Header req) CapabilityInvocationHTTPHeader
               = Some [Sprintf capabilityHeaderFormat [EncodeToString compressed, builderAction b]]"
      by blast
    from h have "map_of (Header req) CapabilityInvocationHTTPHeader
            = Some [''zcap capability='' @ [CHR 0x22] @ EncodeToString compressed @ [CHR 0x22]
                    @ '',action='' @ [CHR 0x22] @ builderAction b @ [CHR 0x22]]"
      unfolding Sprintf_capabilityHeaderFormat .
    with a DecodeString_EncodeToString [of compressed]
    show "\<exists>c compressed.
             u_kmsCapability u = Some c \<and> CompressZCAP e c = Inr compressed
           \<and> map_of (Header req) CapabilityInvocationHTTPHeader
               = Some [''zcap capability='' @ [CHR 0x22] @ EncodeToString compressed @ [CHR 0x22]
                       @ '',action='' @ [CHR 0x22] @ builderAction b @ [CHR 0x22]]
           \<and> DecodeString (EncodeToString compressed) = Some compressed"
      by blast
  qed
  have actions: "builderAction BuildCreateKeyReq = ''create-key''
      \<and> builderAction MakeExportPubKeyReq = ''export-key''
      \<and> builderAction MakeCreateAndExportKeyReq = ''create-key''
      \<and> builderAction MakeImportKeyReq = ''import-key''
      \<and> builderAction MakeRotateKeyReq = ''rotate-key''
      \<and> builderAction MakeSignMessageReq = ''sign''
      \<and> builderAction MakeEncryptMessageReq = ''encrypt''
      \<and> builderAction MakeDecryptCipherReq = ''decrypt''
      \<and> builderAction MakeComputeMACReq = ''compute-mac''
      \<and> builderAction MakeWrapKeyReq = ''wrap''
      \<and> builderAction MakeUnwrapKeyReq = ''unwrap''
      \<and> (\<forall>action. builderAction (MakeVerifyReq action) = action)"
    by (simp add: actionCreateKey_def actionExportKey_def actionImportKey_def
        actionRotateKey_def actionSign_def actionEncrypt_def actionDecrypt_def
        actionComputeMac_def actionWrap_def actionUnwrap_def)
  have second: "\<forall>req. getPubKeyOfRecipientReq e users userName recipientName = Inr req \<longrightarrow>
      (\<exists>recipient u' compressed.
           map_of users recipientName = Some recipient
         \<and> map_of users userName = Some u'
         \<and> delegateCapability e (u_kmsCapability recipient) (u_signer recipient)
              (u_controller recipient) (u_controller u') = Inr compressed
         \<and> map_of (Header req) CapabilityInvocationHTTPHeader
             = Some [''zcap capability='' @ [CHR 0x22] @ EncodeToString compressed @ [CHR 0x22]
                     @ '',action='' @ [CHR 0x22] @ ''export-key'' @ [CHR 0x22]]
         \<and> DecodeString (EncodeToString compressed) = Some compressed)"
  proof (intro allI impI)
    fix req assume "getPubKeyOfRecipientReq e users userName recipientName = Inr req"
    from getPubKeyOfRecipientReq_Inr [OF this] obtain recipient u' r0 compressed where
      a: "map_of users recipientName = Some recipient" "map_of users userName = Some u'"
         "delegateCapability e (u_kmsCapability recipient) (u_signer recipient)
                (u_controller recipient) (u_controller u') = Inr compressed"
      and r0: "setCapabilityHeader e r0 (EncodeToString compressed) (u_controller u') = (req, None)"
      by blast
    from r0 have r: "req = fst (setCapabilityHeader e r0 (EncodeToString compressed) (u_controller u'))"
      by simp
    have "map_of (Header req) CapabilityInvocationHTTPHeader
            = Some [''zcap capability='' @ [CHR 0x22] @ EncodeToString compressed @ [CHR 0x22]
                    @ '',action='' @ [CHR 0x22] @ ''export-key'' @ [CHR 0x22]]"
      unfolding r setCapabilityHeader_header Sprintf_capabilityHeaderFormat
      by (simp add: actionExportKey_def)
    with a DecodeString_EncodeToString [of compressed]
    show "\<exists>recipient u' compressed.
             map_of users recipientName = Some recipient
           \<and> map_of users userName = Some u'
           \<and> delegateCapability e (u_kmsCapability recipient) (u_signer recipient)
                (u_controller recipient) (u_controller u') = Inr compressed
           \<and> map_of (Header req) CapabilityInvocationHTTPHeader
               = Some [''zcap capability='' @ [CHR 0x22] @ EncodeToString compressed @ [CHR 0x22]
                       @ '',action='' @ [CHR 0x22] @ ''export-key'' @ [CHR 0x22]]
           \<and> DecodeString (EncodeToString compressed) = Some compressed"
      by blast
  qed
  show ?thesis by (rule conjI [OF first conjI [OF actions second]])
qed

lemma example_collaborators:
  "prepareGetRequest exampleEnv u url = Inr \<lparr>Method = ''GET'', URL = url, Header = []\<rparr>"
  "preparePostRequest exampleEnv u body url = Inr \<lparr>Method = ''POST'', URL = url, Header = []\<rparr>"
  "hsSign exampleEnv ctrl r = Inr ''keyId=did:key:bob''"
  "CompressZCAP exampleEnv zcap = Inr [0x1f, 0x8b, 0x08, 0x00]"
  "signDocument exampleEnv sg zcap chain = Inr ''c2lnbmVk''"
  "httpClientDo exampleEnv r = Inr \<lparr>resp_status = ''201 Created'', resp_body = []\<rparr>"
  "processResponse exampleEnv resp = Inr (resp_status resp)"
  by (simp_all add: exampleEnv_def)

lemma EncodeToString_example: "EncodeToString [0x1f, 0x8b, 0x08, 0x00] = ''H4sIAA==''"
  by (simp add: encodeURL_def Let_def)

lemma example_signedRequest:
  "signedRequest exampleEnv alice MakeSignMessageReq
     (preparePostRequest exampleEnv alice (JObject [(''Message'', JString ''hello'')])
        ''https://localhost:8076/v1/keystores/k/keys/1/sign'')
   = Inr \<lparr>Method = ''POST'', URL = ''https://localhost:8076/v1/keystores/k/keys/1/sign'',
          Header = [(''Capability-Invocation'',
                      [''zcap capability='' @ [CHR 0x22] @ ''H4sIAA=='' @ [CHR 0x22]
                       @ '',action='' @ [CHR 0x22] @ ''sign'' @ [CHR 0x22]]),
                    (''Signature'', [''keyId=did:key:bob''])]\<rparr>"
  by (simp add: signedRequest_def SetCapabilityInvocation_def Sign_def example_collaborators
      alice_def keystoreCapability_def actionSign_def encodeURL_def Let_def
      Sprintf_capabilityHeaderFormat Header_Set_def CapabilityInvocationHTTPHeader_def
      signatureHeader_def)

theorem invocation_header_shape_witness:
  "\<not> isl (signedRequest exampleEnv alice MakeSignMessageReq
            (preparePostRequest exampleEnv alice (JObject [(''Message'', JString ''hello'')])
               ''https://localhost:8076/v1/keystores/k/keys/1/sign''))
   \<and> map_of (Header (projr (signedRequest exampleEnv alice MakeSignMessageReq
            (preparePostRequest exampleEnv alice (JObject [(''Message'', JString ''hello'')])
               ''https://localhost:8076/v1/keystores/k/keys/1/sign''))))
        CapabilityInvocationHTTPHeader
       = Some [''zcap capability='' @ [CHR 0x22] @ ''H4sIAA=='' @ [CHR 0x22]
               @ '',action='' @ [CHR 0x22] @ ''sign'' @ [CHR 0x22]]
   \<and> \<not> isl (getPubKeyOfRecipientReq exampleEnv [(''alice'', alice), (''bob'', bob)] ''bob'' ''alice'')
   \<and> delegateCapability exampleEnv (Some keystoreCapability) ''alice-key'' ''did:key:alice''
        ''did:key:bob'' = Inr [0x1f, 0x8b, 0x08, 0x00]
   \<and> EncodeToString [0x1f, 0x8b, 0x08, 0x00] = ''H4sIAA==''
   \<and> DecodeString ''H4sIAA=='' = Some [0x1f, 0x8b, 0x08, 0x00]
   \<and> map_of (Header (projr (getPubKeyOfRecipientReq exampleEnv
                 [(''alice'', alice), (''bob'', bob)] ''bob'' ''alice'')))
        CapabilityInvocationHTTPHeader
       = Some [''zcap capability='' @ [CHR 0x22] @ ''H4sIAA=='' @ [CHR 0x22]
               @ '',action='' @ [CHR 0x22] @ ''export-key'' @ [CHR 0x22]]"
proof -
  let ?prep = "preparePostRequest exampleEnv alice (JObject [(''Message'', JString ''hello'')])
               ''https://localhost:8076/v1/keystores/k/keys/1/sign''"
  let ?s = "signedRequest exampleEnv alice MakeSignMessageReq ?prep"
  let ?r = "getPubKeyOfRecipientReq exampleEnv [(''alice'', alice), (''bob'', bob)] ''bob'' ''alice''"
  note t = invocation_header_shape
             [where e = exampleEnv and u = alice and b = MakeSignMessageReq and prepared = ?prep
                and users = "[(''alice'', alice), (''bob'', bob)]" and userName = "''bob''"
                and recipientName = "''alice''"]
  note b64 = EncodeToString_example
  have al: "map_of [(''alice'', alice), (''bob'', bob)] ''alice'' = Some alice" by simp
  have bo: "map_of [(''alice'', alice), (''bob'', bob)] ''bob'' = Some bob" by simp
  have kc: "u_kmsCapability alice = Some keystoreCapability" by (simp add: alice_def)
  have cz: "CompressZCAP exampleEnv keystoreCapability = Inr [0x1f, 0x8b, 0x08, 0x00]"
    by (simp add: example_collaborators)
  have act: "builderAction MakeSignMessageReq = ''sign''" by (simp add: actionSign_def)
  have dc: "delegateCapability exampleEnv (u_kmsCapability alice) (u_signer alice)
              (u_controller alice) (u_controller bob) = Inr [0x1f, 0x8b, 0x08, 0x00]"
    by code_simp
  have dc': "delegateCapability exampleEnv (Some keystoreCapability) ''alice-key''
               ''did:key:alice'' ''did:key:bob'' = Inr [0x1f, 0x8b, 0x08, 0x00]"
    by code_simp
  have oks: "?s = Inr (projr ?s)" by (simp add: example_signedRequest)
  have okr: "?r = Inr (projr ?r)"
    by (simp add: getPubKeyOfRecipientReq_def example_collaborators dc setCapabilityHeader_def
        Let_def)
  from t oks obtain c compressed where
    c: "u_kmsCapability alice = Some c" and z: "CompressZCAP exampleEnv c = Inr compressed"
    and h: "map_of (Header (projr ?s)) CapabilityInvocationHTTPHeader
          = Some [''zcap capability='' @ [CHR 0x22] @ EncodeToString compressed @ [CHR 0x22]
                  @ '',action='' @ [CHR 0x22] @ builderAction MakeSignMessageReq @ [CHR 0x22]]"
    and dec: "DecodeString (EncodeToString compressed) = Some compressed"
    by blast
  from c kc have "c = keystoreCapability" by simp
  with z cz have cv: "compressed = [0x1f, 0x8b, 0x08, 0x00]" by simp
  from h have hs: "map_of (Header (projr ?s)) CapabilityInvocationHTTPHeader
          = Some [''zcap capability='' @ [CHR 0x22] @ ''H4sIAA=='' @ [CHR 0x22]
                  @ '',action='' @ [CHR 0x22] @ ''sign'' @ [CHR 0x22]]"
    unfolding cv b64 act .
  from dec have dv: "DecodeString ''H4sIAA=='' = Some [0x1f, 0x8b, 0x08, 0x00]"
    unfolding cv b64 .
  from t okr obtain recipient u' compressed' where
    r: "map_of [(''alice'', alice), (''bob'', bob)] ''alice'' = Some recipient"
    and u: "map_of [(''alice'', alice), (''bob'', bob)] ''bob'' = Some u'"
    and d: "delegateCapability exampleEnv (u_kmsCapability recipient) (u_signer recipient)
              (u_controller recipient) (u_controller u') = Inr compressed'"
    and h': "map_of (Header (projr ?r)) CapabilityInvocationHTTPHeader
          = Some [''zcap capability='' @ [CHR 0x22] @ EncodeToString compressed'
                  @ [CHR 0x22] @ '',action='' @ [CHR 0x22] @ ''export-key'' @ [CHR 0x22]]"
    by blast
  from r al have ra: "recipient = alice" by simp
  from u bo have ub: "u' = bob" by simp
  from d dc have cv': "compressed' = [0x1f, 0x8b, 0x08, 0x00]" unfolding ra ub by simp
  from h' have hr: "map_of (Header (projr ?r)) CapabilityInvocationHTTPHeader
          = Some [''zcap capability='' @ [CHR 0x22] @ ''H4sIAA==''
                  @ [CHR 0x22] @ '',action='' @ [CHR 0x22] @ ''export-key'' @ [CHR 0x22]]"
    unfolding cv' b64 .
  from oks have n1: "\<not> isl ?s" by (metis sum.disc(2))
  from okr have n2: "\<not> isl ?r" by (metis sum.disc(2))
  from n1 hs n2 dc' b64 dv hr show ?thesis by (intro conjI)
qed

text \<open>
  Claim C8. Whatever the parent, the signer and the principals, a capability minted by
  \<open>delegateCapability\<close> allows exactly the one action \<open>export-key\<close>; and the header that
  \<open>setCapabilityHeader\<close> leaves on the request, whether signing then succeeds or fails,
  declares the action \<open>export-key\<close> for whatever capability string it is given.
\<close>

theorem delegation_mints_export_key_only:
  "(\<forall>d. delegatedCapability e (Some c) s vm invoker = Inr d \<longrightarrow>
         AllowedAction d = [''export-key''])
   \<and> map_of (Header (fst (setCapabilityHeader e req capability ctrl)))
        CapabilityInvocationHTTPHeader
       = Some [''zcap capability='' @ [CHR 0x22] @ capability @ [CHR 0x22]
               @ '',action='' @ [CHR 0x22] @ ''export-key'' @ [CHR 0x22]]"
proof (intro conjI allI impI)
  fix d assume "delegatedCapability e (Some c) s vm invoker = Inr d"
  from delegatedCapability_facts(4) [OF this]
  show "AllowedAction d = [''export-key'']" by (simp add: actionExportKey_def)
next
  show "map_of (Header (fst (setCapabilityHeader e req capability ctrl)))
          CapabilityInvocationHTTPHeader
        = Some [''zcap capability='' @ [CHR 0x22] @ capability @ [CHR 0x22]
                @ '',action='' @ [CHR 0x22] @ ''export-key'' @ [CHR 0x22]]"
    unfolding setCapabilityHeader_header Sprintf_capabilityHeaderFormat
    by (simp add: actionExportKey_def)
qed

theorem delegation_mints_export_key_only_witness:
  "AllowedAction vaultCapability = [''read'', ''write'']
   \<and> \<not> isl (delegatedCapability exampleEnv (Some vaultCapability)
               ''alice-key'' ''did:key:alice'' ''did:key:bob'')
   \<and> AllowedAction (projr (delegatedCapability exampleEnv (Some vaultCapability)
               ''alice-key'' ''did:key:alice'' ''did:key:bob'')) = [''export-key'']
   \<and> map_of (Header (fst (setCapabilityHeader exampleEnv
                 \<lparr>Method = ''GET'', URL = ''https://localhost:8076/v1/keystores'', Header = []\<rparr>
                 ''H4sIAA=='' ''did:key:bob'')))
        CapabilityInvocationHTTPHeader
       = Some [''zcap capability='' @ [CHR 0x22] @ ''H4sIAA=='' @ [CHR 0x22]
               @ '',action='' @ [CHR 0x22] @ ''export-key'' @ [CHR 0x22]]"
proof -
  let ?r = "delegatedCapability exampleEnv (Some vaultCapability)
              ''alice-key'' ''did:key:alice'' ''did:key:bob''"
  have ok: "?r = Inr (projr ?r)" by code_simp
  have acts: "AllowedAction vaultCapability = [''read'', ''write'']" by code_simp
  note t = delegation_mints_export_key_only
             [where e = exampleEnv and c = vaultCapability and s = "''alice-key''"
                and vm = "''did:key:alice''" and invoker = "''did:key:bob''"
                and req = "\<lparr>Method = ''GET'', URL = ''https://localhost:8076/v1/keystores'',
                            Header = []\<rparr>"
                and capability = "''H4sIAA==''" and ctrl = "''did:key:bob''"]
  from t ok have a: "AllowedAction (projr ?r) = [''export-key'']" by blast
  from ok have b: "\<not> isl ?r" by (metis sum.disc(2))
  from t have h: "map_of (Header (fst (setCapabilityHeader exampleEnv
                 \<lparr>Method = ''GET'', URL = ''https://localhost:8076/v1/keystores'', Header = []\<rparr>
                 ''H4sIAA=='' ''did:key:bob'')))
        CapabilityInvocationHTTPHeader
       = Some [''zcap capability='' @ [CHR 0x22] @ ''H4sIAA=='' @ [CHR 0x22]
               @ '',action='' @ [CHR 0x22] @ ''export-key'' @ [CHR 0x22]]"
    by (rule conjunct2)
  from acts b a h show ?thesis by (intro conjI)
qed

section \<open>Properties of the parallel requests\<close>

lemma waitLoop_returns_statuses:
  "waitLoop n rs acc = Returned (Inr ss)
     \<longleftrightarrow> n \<le> length rs \<and> (\<exists>ts. take n rs = map StatusCh ts \<and> ss = acc @ ts)"
proof (induction n rs acc rule: waitLoop.induct)
  case (1 rs acc)
  then show ?case by auto
next
  case (2 n acc)
  then show ?case by simp
next
  case (3 n err rs acc)
  then show ?case by auto
next
  case (4 n st rs acc)
  show ?case
  proof
    assume "waitLoop (Suc n) (StatusCh st # rs) acc = Returned (Inr ss)"
    with 4 obtain ts where "n \<le> length rs" "take n rs = map StatusCh ts" "ss = (acc @ [st]) @ ts"
      by auto
    then have "take (Suc n) (StatusCh st # rs) = map StatusCh (st # ts)" "ss = acc @ st # ts"
      by simp_all
    with \<open>n \<le> length rs\<close>
    show "Suc n \<le> length (StatusCh st # rs)
          \<and> (\<exists>ts. take (Suc n) (StatusCh st # rs) = map StatusCh ts \<and> ss = acc @ ts)"
      by (metis Suc_le_mono length_Cons)
  next
    assume "Suc n \<le> length (StatusCh st # rs)
          \<and> (\<exists>ts. take (Suc n) (StatusCh st # rs) = map StatusCh ts \<and> ss = acc @ ts)"
    then have n: "n \<le> length rs"
      and "\<exists>ts. take (Suc n) (StatusCh st # rs) = map StatusCh ts \<and> ss = acc @ ts"
      by simp_all
    then obtain ts where t0: "take (Suc n) (StatusCh st # rs) = map StatusCh ts"
      and s: "ss = acc @ ts"
      by blast
    from t0 have t: "StatusCh st # take n rs = map StatusCh ts" by simp
    from t have "\<exists>ts'. ts = st # ts' \<and> take n rs = map StatusCh ts'"
      by (cases ts) auto
    then obtain ts' where "ts = st # ts'" "take n rs = map StatusCh ts'"
      by blast
    with n s 4 show "waitLoop (Suc n) (StatusCh st # rs) acc = Returned (Inr ss)"
      by auto
  qed
qed

lemma waitLoop_blocked:
  "waitLoop n rs acc = Blocked \<longleftrightarrow> length rs < n \<and> (\<exists>ts. rs = map StatusCh ts)"
proof (induction n rs acc rule: waitLoop.induct)
  case (1 rs acc)
  then show ?case by simp
next
  case (2 n acc)
  then show ?case by simp
next
  case (3 n err rs acc)
  then show ?case by (auto simp add: Cons_eq_map_conv)
next
  case (4 n st rs acc)
  then show ?case by (auto simp add: Cons_eq_map_conv)
qed

lemma waitLoop_fails:
  "waitLoop n rs acc = Returned (Inl err)
     \<longleftrightarrow> (\<exists>ts msg rest. rs = map StatusCh ts @ ErrCh msg # rest \<and> length ts < n
                        \<and> err = Error msg)"
proof (induction n rs acc rule: waitLoop.induct)
  case (1 rs acc)
  then show ?case by simp
next
  case (2 n acc)
  then show ?case by simp
next
  case (3 n e rs acc)
  show ?case
  proof
    assume "waitLoop (Suc n) (ErrCh e # rs) acc = Returned (Inl err)"
    then have "ErrCh e # rs = map StatusCh [] @ ErrCh e # rs \<and> length ([]::string list) < Suc n
               \<and> err = Error e"
      by simp
    then show "\<exists>ts msg rest. ErrCh e # rs = map StatusCh ts @ ErrCh msg # rest
                 \<and> length ts < Suc n \<and> err = Error msg"
      by blast
  next
    assume "\<exists>ts msg rest. ErrCh e # rs = map StatusCh ts @ ErrCh msg # rest
                 \<and> length ts < Suc n \<and> err = Error msg"
    then obtain ts msg rest where
      eq: "ErrCh e # rs = map StatusCh ts @ ErrCh msg # rest" and "err = Error msg"
      by blast
    from eq have "ts = []" by (cases ts) auto
    with eq \<open>err = Error msg\<close>
    show "waitLoop (Suc n) (ErrCh e # rs) acc = Returned (Inl err)" by simp
  qed
next
  case (4 n st rs acc)
  show ?case
  proof
    assume "waitLoop (Suc n) (StatusCh st # rs) acc = Returned (Inl err)"
    with 4 obtain ts msg rest where
      "rs = map StatusCh ts @ ErrCh msg # rest" "length ts < n" "err = Error msg"
      by auto
    then have "StatusCh st # rs = map StatusCh (st # ts) @ ErrCh msg # rest
               \<and> length (st # ts) < Suc n \<and> err = Error msg"
      by simp
    then show "\<exists>ts msg rest. StatusCh st # rs = map StatusCh ts @ ErrCh msg # rest
                 \<and> length ts < Suc n \<and> err = Error msg"
      by blast
  next
    assume "\<exists>ts msg rest. StatusCh st # rs = map StatusCh ts @ ErrCh msg # rest
                 \<and> length ts < Suc n \<and> err = Error msg"
    then obtain ts msg rest where
      eq: "StatusCh st # rs = map StatusCh ts @ ErrCh msg # rest" and len: "length ts < Suc n"
      and e: "err = Error msg"
      by blast
    from eq have "\<exists>ts'. ts = st # ts' \<and> rs = map StatusCh ts' @ ErrCh msg # rest"
      by (cases ts) auto
    then obtain ts' where "ts = st # ts'" "rs = map StatusCh ts' @ ErrCh msg # rest"
      by blast
    with len e 4 show "waitLoop (Suc n) (StatusCh st # rs) acc = Returned (Inl err)"
      by auto
  qed
qed

lemma buildCreateKeyReqs_length:
  "buildCreateKeyReqs e u endpoint kts = Inr rr \<Longrightarrow> length rr = length kts"
  by (induction kts arbitrary: rr) (auto split: sum.splits)

text \<open>
  Claim C7. Let the requests for the key types be built, \<open>rr\<close> of them, one for each key
  type, and let \<open>rs\<close> be the values the wait loop receives, in the order it receives
  them. The step returns normally exactly when the first \<open>length rr\<close> values received are
  statuses, one for each request dispatched, and then it has collected exactly these, in
  the order of their arrival. It is blocked exactly when it has received fewer values
  than requests and no error. It returns an error exactly when an error arrives before
  \<open>length rr\<close> statuses have: the first error received is returned as it is, whatever
  arrives after it. And when every request ends in a status, the statuses collected are
  the arrived ones in their order of arrival, for every order in which the statuses of
  the dispatched requests may arrive.
\<close>

theorem parallel_requests_fan_in:
  assumes "buildCreateKeyReqs e (map_of users userName) endpoint (Split keyTypes (CHR '','')) = Inr rr"
  shows "length rr = length (Split keyTypes (CHR '',''))
       \<and> (makeParallelCreateKeyReqs e users userName endpoint keyTypes rs = Returned (Inr statuses)
            \<longleftrightarrow> length rr \<le> length rs \<and> take (length rr) rs = map StatusCh statuses)
       \<and> (makeParallelCreateKeyReqs e users userName endpoint keyTypes rs = Blocked
            \<longleftrightarrow> length rs < length rr \<and> (\<exists>sts. rs = map StatusCh sts))
       \<and> (makeParallelCreateKeyReqs e users userName endpoint keyTypes rs = Returned (Inl err)
            \<longleftrightarrow> (\<exists>sts msg rest. rs = map StatusCh sts @ ErrCh msg # rest
                     \<and> length sts < length rr \<and> err = Error msg))
       \<and> (map (createKeyUnit e) rr = map StatusCh dispatched \<and> mset arrived = mset dispatched
            \<longrightarrow> makeParallelCreateKeyReqs e users userName endpoint keyTypes (map StatusCh arrived)
                  = Returned (Inr arrived))"
proof -
  have run: "makeParallelCreateKeyReqs e users userName endpoint keyTypes xs
               = waitLoop (length rr) xs []" for xs
    using assms by (simp add: makeParallelCreateKeyReqs_def)
  have "map (createKeyUnit e) rr = map StatusCh dispatched \<and> mset arrived = mset dispatched
          \<longrightarrow> waitLoop (length rr) (map StatusCh arrived) [] = Returned (Inr arrived)"
  proof
    assume a: "map (createKeyUnit e) rr = map StatusCh dispatched \<and> mset arrived = mset dispatched"
    then have "length rr = length dispatched" by (metis length_map)
    moreover from a have "length arrived = length dispatched" by (metis size_mset)
    ultimately show "waitLoop (length rr) (map StatusCh arrived) [] = Returned (Inr arrived)"
      by (simp add: waitLoop_returns_statuses)
  qed
  then show ?thesis
    unfolding run
    by (simp add: waitLoop_returns_statuses waitLoop_blocked waitLoop_fails
        buildCreateKeyReqs_length [OF assms])
qed

lemma example_buildCreateKeyReq:
  "buildCreateKeyReq exampleEnv (Some alice) ''https://localhost:8076/v1/keystores/k/keys'' kt
   = Inr \<lparr>Method = ''POST'', URL = ''https://localhost:8076/v1/keystores/k/keys'',
          Header = [(''Capability-Invocation'',
                      [''zcap capability='' @ [CHR 0x22] @ ''H4sIAA=='' @ [CHR 0x22]
                       @ '',action='' @ [CHR 0x22] @ ''create-key'' @ [CHR 0x22]]),
                    (''Signature'', [''keyId=did:key:bob''])]\<rparr>"
  by (simp add: buildCreateKeyReq_def signedRequest_def SetCapabilityInvocation_def Sign_def
      example_collaborators alice_def keystoreCapability_def actionCreateKey_def encodeURL_def
      Let_def Sprintf_capabilityHeaderFormat Header_Set_def CapabilityInvocationHTTPHeader_def
      signatureHeader_def)

theorem parallel_requests_fan_in_witness:
  "Split ''ED25519,X25519'' (CHR '','') = [''ED25519'', ''X25519'']
   \<and> makeParallelCreateKeyReqs exampleEnv [(''alice'', alice), (''bob'', bob)] ''alice''
        ''https://localhost:8076/v1/keystores/k/keys'' ''ED25519,X25519''
        [StatusCh ''200 OK'', StatusCh ''201 Created'']
       = Returned (Inr [''200 OK'', ''201 Created''])
   \<and> makeParallelCreateKeyReqs exampleEnv [(''alice'', alice), (''bob'', bob)] ''alice''
        ''https://localhost:8076/v1/keystores/k/keys'' ''ED25519,X25519''
        [StatusCh ''201 Created'']
       = Blocked
   \<and> makeParallelCreateKeyReqs exampleEnv [(''alice'', alice), (''bob'', bob)] ''alice''
        ''https://localhost:8076/v1/keystores/k/keys'' ''ED25519,X25519''
        [StatusCh ''201 Created'', ErrCh ''connection refused'', StatusCh ''201 Created'']
       = Returned (Inl (Error ''connection refused''))
   \<and> makeParallelCreateKeyReqs exampleEnv [(''alice'', alice), (''bob'', bob)] ''alice''
        ''https://localhost:8076/v1/keystores/k/keys'' ''ED25519,X25519''
        (map StatusCh [''201 Created'', ''201 Created''])
       = Returned (Inr [''201 Created'', ''201 Created''])"
proof -
  let ?ep = "''https://localhost:8076/v1/keystores/k/keys''"
  let ?users = "[(''alice'', alice), (''bob'', bob)]"
  let ?rr = "projr (buildCreateKeyReqs exampleEnv (map_of ?users ''alice'') ?ep
               (Split ''ED25519,X25519'' (CHR '','')))"
  have sp: "Split ''ED25519,X25519'' (CHR '','') = [''ED25519'', ''X25519'']"
    by (simp add: Split_def)
  have build: "buildCreateKeyReqs exampleEnv (map_of ?users ''alice'') ?ep
                 (Split ''ED25519,X25519'' (CHR '','')) = Inr ?rr"
    by (simp add: sp example_buildCreateKeyReq)
  have len: "length ?rr = 2"
    by (simp add: sp example_buildCreateKeyReq)
  have units: "map (createKeyUnit exampleEnv) ?rr = map StatusCh [''201 Created'', ''201 Created'']"
    by (simp add: sp example_buildCreateKeyReq createKeyUnit_def processCreateKeyResp_def
        example_collaborators)
  note t = parallel_requests_fan_in [OF build]
  have a: "makeParallelCreateKeyReqs exampleEnv ?users ''alice'' ?ep ''ED25519,X25519''
             [StatusCh ''200 OK'', StatusCh ''201 Created'']
           = Returned (Inr [''200 OK'', ''201 Created''])"
    using t [where rs = "[StatusCh ''200 OK'', StatusCh ''201 Created'']"
               and statuses = "[''200 OK'', ''201 Created'']"] len
    by simp
  have b: "makeParallelCreateKeyReqs exampleEnv ?users ''alice'' ?ep ''ED25519,X25519''
             [StatusCh ''201 Created''] = Blocked"
  proof -
    have "[StatusCh ''201 Created''] = map StatusCh [''201 Created'']" by simp
    then have "\<exists>sts. [StatusCh ''201 Created''] = map StatusCh sts" by (rule exI)
    with t [where rs = "[StatusCh ''201 Created'']"] len show ?thesis by simp
  qed
  have c: "makeParallelCreateKeyReqs exampleEnv ?users ''alice'' ?ep ''ED25519,X25519''
             [StatusCh ''201 Created'', ErrCh ''connection refused'', StatusCh ''201 Created'']
           = Returned (Inl (Error ''connection refused''))"
  proof -
    have "[StatusCh ''201 Created'', ErrCh ''connection refused'', StatusCh ''201 Created'']
            = map StatusCh [''201 Created''] @ ErrCh ''connection refused''
              # [StatusCh ''201 Created'']
          \<and> length [''201 Created''] < length ?rr
          \<and> Error ''connection refused'' = Error ''connection refused''"
      using len by simp
    then have "\<exists>sts msg rest.
        [StatusCh ''201 Created'', ErrCh ''connection refused'', StatusCh ''201 Created'']
          = map StatusCh sts @ ErrCh msg # rest
        \<and> length sts < length ?rr \<and> Error ''connection refused'' = Error msg"
      by blast
    with t [where rs = "[StatusCh ''201 Created'', ErrCh ''connection refused'',
                         StatusCh ''201 Created'']"
              and err = "Error ''connection refused''"]
    show ?thesis by blast
  qed
  have d: "makeParallelCreateKeyReqs exampleEnv ?users ''alice'' ?ep ''ED25519,X25519''
             (map StatusCh [''201 Created'', ''201 Created''])
           = Returned (Inr [''201 Created'', ''201 Created''])"
    using t [where dispatched = "[''201 Created'', ''201 Created'']"
               and arrived = "[''201 Created'', ''201 Created'']"] units
    by blast
  from sp a b c d show ?thesis by (intro conjI)
qed

end
